theory Spec2Isabelle
  imports Complex_Main
begin

section \<open>Finite-difference demos: grid, explicit heat stepper, CTCS wave assembly\<close>

text \<open>
  The notebook works on NumPy arrays of double-precision floats.  The embedding reads every
  float as a real number, so rounding is not modelled: an array of shape \<open>(n)\<close> is a
  \<open>real list\<close>, an array of shape \<open>(n, m)\<close> a list of \<open>n\<close> rows of length \<open>m\<close>.  Statements
  whose truth depends on the rounding of a result (an inequality between computed values,
  what the linear solver returns) are therefore not made here; the one float constant whose
  value matters, \<^verbatim>\<open>np.pi\<close>, is the exact rational it denotes.
  What the notebook raises is a value of type \<open>error\<close>.
\<close>

datatype error = ZeroDivisionError | ValueError | IndexError

subsection \<open>Grid creation\<close>

text \<open>
  \<^verbatim>\<open>(x_2 - x_1) / float(N_x)\<close>: a division of Python floats, which raises on a zero
  divisor.  Floats are read as reals and \<^verbatim>\<open>float(N)\<close> as \<open>N\<close>: the rounding of the quotient,
  and the rounding (from \<open>2\<^sup>5\<^sup>3\<close> on) and the OverflowError (from about \<open>2\<^sup>1\<^sup>0\<^sup>2\<^sup>4\<close> on) of
  the conversion of a huge count, are not part of this model.
\<close>

definition step_size :: "real \<Rightarrow> real \<Rightarrow> int \<Rightarrow> error + real" where
  "step_size start stop num =
     (if real_of_int num = 0 then Inl ZeroDivisionError
      else Inr ((stop - start) / real_of_int num))"

text \<open>
  \<^verbatim>\<open>np.linspace(start, stop, num)\<close> (endpoint included): \<open>num\<close> samples
  \<open>start + k * step\<close> with \<open>step = (stop - start) / (num - 1)\<close>; one sample is \<open>start\<close>
  alone, no sample is the empty array, and a negative \<open>num\<close> raises ValueError.
\<close>

definition linspace :: "real \<Rightarrow> real \<Rightarrow> int \<Rightarrow> error + real list" where
  "linspace start stop num =
     (if num < 0 then Inl ValueError
      else if num = 1 then Inr [start]
      else Inr (map (\<lambda>k. start + real k * ((stop - start) / real_of_int (num - 1)))
                  [0..<nat num]))"

record grid =
  grid_dx :: real
  grid_dt :: real
  grid_x :: "real list"
  grid_t :: "real list"

text \<open>
  The cell "Create the grid" of the 1-D heat and 1-D wave examples:
  \<^verbatim>\<open>
  dx = (x_2 - x_1) / float(N_x)
  dt = t_f / float(N_t)
  x = np.linspace(x_1, x_2, N_x)
  t = np.linspace(0, t_f, N_t)
  \<close>
  The statements run in this order, so the first one that raises decides the error.
\<close>

definition create_grid :: "real \<Rightarrow> real \<Rightarrow> real \<Rightarrow> int \<Rightarrow> int \<Rightarrow> error + grid" where
  "create_grid x_1 x_2 t_f N_x N_t =
     (case step_size x_1 x_2 N_x of Inl e \<Rightarrow> Inl e | Inr dx \<Rightarrow>
      case step_size 0 t_f N_t of Inl e \<Rightarrow> Inl e | Inr dt \<Rightarrow>
      case linspace x_1 x_2 N_x of Inl e \<Rightarrow> Inl e | Inr x \<Rightarrow>
      case linspace 0 t_f N_t of Inl e \<Rightarrow> Inl e | Inr t \<Rightarrow>
        Inr \<lparr>grid_dx = dx, grid_dt = dt, grid_x = x, grid_t = t\<rparr>)"

subsection \<open>Arrays\<close>

type_synonym array2 = "real list list"

text \<open>\<^verbatim>\<open>np.zeros((n, m))\<close>.\<close>

definition zeros :: "nat \<Rightarrow> nat \<Rightarrow> array2" where
  "zeros n m = replicate n (replicate m 0)"

text \<open>The slice \<^verbatim>\<open>v[1:-1]\<close>: everything but the first and the last entry.\<close>

definition inner :: "'a list \<Rightarrow> 'a list" where
  "inner v = butlast (tl v)"

text \<open>
  The slice assignment \<^verbatim>\<open>v[1:-1] = w\<close>, for \<open>w\<close> of the slice's length: the two end
  entries stay.  A row shorter than two entries has an empty slice and stays as it is.
\<close>

definition set_inner :: "'a list \<Rightarrow> 'a list \<Rightarrow> 'a list" where
  "set_inner v w = (if length v < 2 then v else hd v # w @ [last v])"

text \<open>Elementwise arithmetic of arrays of one shape, and a scalar times an array.\<close>

definition vadd :: "real list \<Rightarrow> real list \<Rightarrow> real list" where
  "vadd v w = map2 (+) v w"

definition vsub :: "real list \<Rightarrow> real list \<Rightarrow> real list" where
  "vsub v w = map2 (-) v w"

definition smul :: "real \<Rightarrow> real list \<Rightarrow> real list" where
  "smul c v = map (\<lambda>e. c * e) v"

text \<open>
  A \<^verbatim>\<open>for\<close> loop over a range whose body may raise: the first error ends the loop.
\<close>

fun for_range :: "nat list \<Rightarrow> (nat \<Rightarrow> 's \<Rightarrow> error + 's) \<Rightarrow> 's \<Rightarrow> error + 's" where
  "for_range [] body s = Inr s"
| "for_range (i # is) body s =
     (case body i s of Inl e \<Rightarrow> Inl e | Inr s' \<Rightarrow> for_range is body s')"

subsection \<open>The 1-D heat equation, forward Euler\<close>

text \<open>
  \<^verbatim>\<open>
  u = np.zeros((N_t, N_x))
  u[0,:] = g_0(x)
  u[:,0] = h_1
  u[:,-1] = h_2
  \<close>
  Row 0 of an array without rows and column 0 of an array without columns raise IndexError.
  The column fills come after the row fill and overwrite its two end entries.
\<close>

definition fill_boundary ::
  "real list \<Rightarrow> nat \<Rightarrow> nat \<Rightarrow> (real \<Rightarrow> real) \<Rightarrow> real \<Rightarrow> real \<Rightarrow> error + array2" where
  "fill_boundary x N_t N_x g_0 h_1 h_2 =
     (if N_t = 0 then Inl IndexError
      else if N_x = 0 then Inl IndexError
      else Inr (map (\<lambda>row. row[N_x - 1 := h_2])
                 (map (\<lambda>row. row[0 := h_1])
                   ((zeros N_t N_x)[0 := map g_0 x]))))"

text \<open>
  The body of the time loop:
  \<^verbatim>\<open>
  u[i+1,1:-1] = u[i,1:-1] + (a*dt/dx/dx) * (u[i,:-2] + u[i,2:] - 2*u[i,1:-1])
                + dt*f(t[i],x[1:-1])
  \<close>
  \<open>heat_rhs\<close> is the right-hand side for the row \<open>u[i]\<close> and the time \<open>t[i]\<close>; the source
  term \<open>f\<close> is applied to that time and to each interior coordinate.  \<open>a\<close>, \<open>dt\<close> and \<open>dx\<close>
  are Python floats, so \<^verbatim>\<open>a*dt/dx\<close> raises when \<open>dx\<close> is zero.
\<close>

definition heat_rhs ::
  "real \<Rightarrow> real \<Rightarrow> real \<Rightarrow> (real \<Rightarrow> real \<Rightarrow> real) \<Rightarrow> real \<Rightarrow> real list \<Rightarrow>
   real list \<Rightarrow> real list" where
  "heat_rhs a dt dx f t_i x row =
     vadd
       (vadd (inner row)
             (smul (a * dt / dx / dx)
                (vsub (vadd (take (length row - 2) row) (drop 2 row))
                      (smul 2 (inner row)))))
       (smul dt (map (f t_i) (inner x)))"

definition heat_step ::
  "real \<Rightarrow> real \<Rightarrow> real \<Rightarrow> (real \<Rightarrow> real \<Rightarrow> real) \<Rightarrow> real list \<Rightarrow> real list \<Rightarrow>
   nat \<Rightarrow> array2 \<Rightarrow> error + array2" where
  "heat_step a dt dx f t x i u =
     (if dx = 0 then Inl ZeroDivisionError
      else Inr (u[i + 1 := set_inner (u ! (i + 1)) (heat_rhs a dt dx f (t ! i) x (u ! i))]))"

text \<open>
  The whole example: grid, boundary fill, then \<^verbatim>\<open>for i in range(N_t-1)\<close>.
\<close>

definition heat_solve ::
  "real \<Rightarrow> real \<Rightarrow> real \<Rightarrow> int \<Rightarrow> int \<Rightarrow> real \<Rightarrow> (real \<Rightarrow> real \<Rightarrow> real) \<Rightarrow>
   (real \<Rightarrow> real) \<Rightarrow> real \<Rightarrow> real \<Rightarrow> error + array2" where
  "heat_solve x_1 x_2 t_f N_x N_t a f g_0 h_1 h_2 =
     (case create_grid x_1 x_2 t_f N_x N_t of Inl e \<Rightarrow> Inl e | Inr g \<Rightarrow>
      case fill_boundary (grid_x g) (nat N_t) (nat N_x) g_0 h_1 h_2 of Inl e \<Rightarrow> Inl e
      | Inr u \<Rightarrow>
        for_range [0..<nat (N_t - 1)]
          (heat_step a (grid_dt g) (grid_dx g) f (grid_t g) (grid_x g)) u)"

text \<open>
  \<^verbatim>\<open>np.pi\<close>, the float64 nearest to \<open>\<pi>\<close>: the rational \<open>884279719003555 / 2\<^sup>4\<^sup>8\<close>.  The initial
  profile of the shipped example is \<^verbatim>\<open>g_0 = lambda x: np.sin(2*np.pi*x/(x_2-x_1))\<close>.
\<close>

definition np_pi :: real where
  "np_pi = 884279719003555 / 281474976710656"

subsection \<open>Element access\<close>

text \<open>Sequencing of steps that may raise.\<close>

definition bind_err :: "error + 'a \<Rightarrow> ('a \<Rightarrow> error + 'b) \<Rightarrow> error + 'b" where
  "bind_err r k = (case r of Inl e \<Rightarrow> Inl e | Inr v \<Rightarrow> k v)"

text \<open>
  An index into an axis of length \<open>n\<close>: a negative index counts from the end, and an index
  outside \<open>[-n, n)\<close> raises IndexError.
\<close>

definition py_index :: "nat \<Rightarrow> int \<Rightarrow> error + nat" where
  "py_index n k =
     (if 0 \<le> k \<and> k < int n then Inr (nat k)
      else if - int n \<le> k \<and> k < 0 then Inr (nat (int n + k))
      else Inl IndexError)"

text \<open>A division of Python floats: a zero divisor raises.\<close>

definition py_div :: "real \<Rightarrow> real \<Rightarrow> error + real" where
  "py_div a b = (if b = 0 then Inl ZeroDivisionError else Inr (a / b))"

text \<open>\<^verbatim>\<open>mat[i,j] = v\<close>, for a constant \<open>v\<close>.\<close>

definition set_at :: "array2 \<Rightarrow> int \<Rightarrow> int \<Rightarrow> real \<Rightarrow> error + array2" where
  "set_at mat i j v =
     bind_err (py_index (length mat) i) (\<lambda>i'.
     bind_err (py_index (length (mat ! i')) j) (\<lambda>j'.
       Inr (mat[i' := (mat ! i')[j' := v]])))"

text \<open>
  \<^verbatim>\<open>mat[i,j] += rhs\<close>.  Python reads \<^verbatim>\<open>mat[i,j]\<close> first, so an index out of range
  raises before the right-hand side is evaluated; then it evaluates the right-hand side,
  which may raise itself, and stores the sum.
\<close>

definition add_at :: "array2 \<Rightarrow> int \<Rightarrow> int \<Rightarrow> error + real \<Rightarrow> error + array2" where
  "add_at mat i j rhs =
     bind_err (py_index (length mat) i) (\<lambda>i'.
     bind_err (py_index (length (mat ! i')) j) (\<lambda>j'.
     bind_err rhs (\<lambda>v.
       Inr (mat[i' := (mat ! i')[j' := mat ! i' ! j' + v]]))))"

subsection \<open>The 1-D wave equation, CTCS: assembly of the linear system\<close>

text \<open>
  The equations are collected in two lists that grow together: \<open>eqs\<close>, one coefficient
  array of the field's shape per equation, and \<open>col\<close>, the right-hand sides.
\<close>

type_synonym system = "array2 list \<times> real list"

definition append_eq :: "system \<Rightarrow> array2 \<Rightarrow> real \<Rightarrow> system" where
  "append_eq s mat rhs = (fst s @ [mat], snd s @ [rhs])"

text \<open>
  The stencil of the cell "differential equation definition", for one \<open>(i, j)\<close>:
  \<^verbatim>\<open>
  mat = np.zeros((N_t, N_x))
  mat[i,j] += -2/dt/dt
  mat[i-1,j] += 1/dt/dt
  mat[i+1,j] += 1/dt/dt
  mat[i,j] += (c*c/dx/dx) * 2
  mat[i,j+1] += -(c*c/dx/dx)
  mat[i,j-1] += -(c*c/dx/dx)
  \<close>
  statement by statement.  \<open>dt\<close>, \<open>dx\<close> and \<open>c\<close> are Python floats, so each quotient raises
  on a zero divisor.  The quotients are taken over the reals: the rounding, overflow and
  underflow of the float64 quotients are not modelled.
\<close>

definition stencil :: "real \<Rightarrow> real \<Rightarrow> real \<Rightarrow> nat \<Rightarrow> nat \<Rightarrow> nat \<Rightarrow> nat \<Rightarrow> error + array2" where
  "stencil dt dx c N_t N_x i j =
     bind_err (add_at (zeros N_t N_x) (int i) (int j)
                 (bind_err (py_div (- 2) dt) (\<lambda>q. py_div q dt))) (\<lambda>mat.
     bind_err (add_at mat (int i - 1) (int j)
                 (bind_err (py_div 1 dt) (\<lambda>q. py_div q dt))) (\<lambda>mat.
     bind_err (add_at mat (int i + 1) (int j)
                 (bind_err (py_div 1 dt) (\<lambda>q. py_div q dt))) (\<lambda>mat.
     bind_err (add_at mat (int i) (int j)
                 (bind_err (py_div (c * c) dx) (\<lambda>q.
                  bind_err (py_div q dx) (\<lambda>q. Inr (q * 2))))) (\<lambda>mat.
     bind_err (add_at mat (int i) (int j + 1)
                 (bind_err (py_div (c * c) dx) (\<lambda>q.
                  bind_err (py_div q dx) (\<lambda>q. Inr (- q))))) (\<lambda>mat.
     add_at mat (int i) (int j - 1)
                 (bind_err (py_div (c * c) dx) (\<lambda>q.
                  bind_err (py_div q dx) (\<lambda>q. Inr (- q)))))))))"

text \<open>
  \<^verbatim>\<open>
  for i in range(1,N_t-1):
      for j in range(1,N_x-1):
          ... the stencil ...
          eqs.append(mat)
          col.append( f(t[i],x[j]) )
  \<close>
\<close>

definition pde_body ::
  "real \<Rightarrow> real \<Rightarrow> real \<Rightarrow> (real \<Rightarrow> real \<Rightarrow> real) \<Rightarrow> real list \<Rightarrow> real list \<Rightarrow>
   nat \<Rightarrow> nat \<Rightarrow> nat \<Rightarrow> nat \<Rightarrow> system \<Rightarrow> error + system" where
  "pde_body dt dx c f t x N_t N_x i j s =
     bind_err (stencil dt dx c N_t N_x i j) (\<lambda>mat.
       Inr (append_eq s mat (f (t ! i) (x ! j))))"

definition pde_loop ::
  "real \<Rightarrow> real \<Rightarrow> real \<Rightarrow> (real \<Rightarrow> real \<Rightarrow> real) \<Rightarrow> real list \<Rightarrow> real list \<Rightarrow>
   nat \<Rightarrow> nat \<Rightarrow> system \<Rightarrow> error + system" where
  "pde_loop dt dx c f t x N_t N_x s =
     for_range [1..<N_t - 1] (\<lambda>i.
       for_range [1..<N_x - 1] (\<lambda>j. pde_body dt dx c f t x N_t N_x i j)) s"

text \<open>
  \<^verbatim>\<open>
  # IVP Dirichlet
  for j in range(0,N_x):
      mat = np.zeros((N_t, N_x))
      mat[0,j] = 1
      eqs.append(mat)
      col.append( g_0(x[j]) )
  # IVP Neumann
  for j in range(1,N_x-1):
      mat = np.zeros((N_t, N_x))
      mat[0+1,j] = 1
      mat[0,j] = -1
      eqs.append(mat)
      col.append( g_1(x[j]) )
  \<close>
\<close>

definition ivp_dirichlet_loop ::
  "real list \<Rightarrow> nat \<Rightarrow> nat \<Rightarrow> (real \<Rightarrow> real) \<Rightarrow> system \<Rightarrow> error + system" where
  "ivp_dirichlet_loop x N_t N_x g_0 s =
     for_range [0..<N_x] (\<lambda>j s.
       bind_err (set_at (zeros N_t N_x) 0 (int j) 1) (\<lambda>mat.
         Inr (append_eq s mat (g_0 (x ! j))))) s"

definition ivp_neumann_loop ::
  "real list \<Rightarrow> nat \<Rightarrow> nat \<Rightarrow> (real \<Rightarrow> real) \<Rightarrow> system \<Rightarrow> error + system" where
  "ivp_neumann_loop x N_t N_x g_1 s =
     for_range [1..<N_x - 1] (\<lambda>j s.
       bind_err (set_at (zeros N_t N_x) (0 + 1) (int j) 1) (\<lambda>mat.
       bind_err (set_at mat 0 (int j) (- 1)) (\<lambda>mat.
         Inr (append_eq s mat (g_1 (x ! j)))))) s"

text \<open>
  \<^verbatim>\<open>
  # Space bounds
  for i in range(1,N_t):
      mat = np.zeros((N_t, N_x))
      mat[i,0] = 1
      eqs.append(mat)
      col.append(h_1)
  for i in range(1,N_t):
      mat = np.zeros((N_t, N_x))
      mat[i,-1] = 1
      eqs.append(mat)
      col.append(h_2)
  \<close>
\<close>

definition space_bounds_loops ::
  "nat \<Rightarrow> nat \<Rightarrow> real \<Rightarrow> real \<Rightarrow> system \<Rightarrow> error + system" where
  "space_bounds_loops N_t N_x h_1 h_2 s =
     bind_err
       (for_range [1..<N_t] (\<lambda>i s.
          bind_err (set_at (zeros N_t N_x) (int i) 0 1) (\<lambda>mat.
            Inr (append_eq s mat h_1))) s)
       (for_range [1..<N_t] (\<lambda>i s.
          bind_err (set_at (zeros N_t N_x) (int i) (- 1) 1) (\<lambda>mat.
            Inr (append_eq s mat h_2))))"

text \<open>
  The cells in the notebook's order, from \<^verbatim>\<open>col = []; eqs = []\<close> on: the stencil
  equations first, then the two initial conditions, then the spatial bounds.
\<close>

definition wave_system ::
  "real \<Rightarrow> real \<Rightarrow> real list \<Rightarrow> real list \<Rightarrow> nat \<Rightarrow> nat \<Rightarrow> real \<Rightarrow>
   (real \<Rightarrow> real \<Rightarrow> real) \<Rightarrow> (real \<Rightarrow> real) \<Rightarrow> (real \<Rightarrow> real) \<Rightarrow> real \<Rightarrow> real \<Rightarrow>
   error + system" where
  "wave_system dt dx x t N_t N_x c f g_0 g_1 h_1 h_2 =
     bind_err (pde_loop dt dx c f t x N_t N_x ([], [])) (\<lambda>s.
     bind_err (ivp_dirichlet_loop x N_t N_x g_0 s) (\<lambda>s.
     bind_err (ivp_neumann_loop x N_t N_x g_1 s) (\<lambda>s.
       space_bounds_loops N_t N_x h_1 h_2 s)))"

definition wave_assemble ::
  "real \<Rightarrow> real \<Rightarrow> real \<Rightarrow> int \<Rightarrow> int \<Rightarrow> real \<Rightarrow> (real \<Rightarrow> real \<Rightarrow> real) \<Rightarrow>
   (real \<Rightarrow> real) \<Rightarrow> (real \<Rightarrow> real) \<Rightarrow> real \<Rightarrow> real \<Rightarrow> error + system" where
  "wave_assemble x_1 x_2 t_f N_x N_t c f g_0 g_1 h_1 h_2 =
     bind_err (create_grid x_1 x_2 t_f N_x N_t) (\<lambda>g.
       wave_system (grid_dt g) (grid_dx g) (grid_x g) (grid_t g) (nat N_t) (nat N_x)
         c f g_0 g_1 h_1 h_2)"

subsection \<open>Index sets\<close>

text \<open>
  The index pairs \<open>(i, j)\<close> that the stencil loop visits, in its order: the centres of the
  stencil equations.
\<close>

definition pde_indices :: "nat \<Rightarrow> nat \<Rightarrow> (nat \<times> nat) list" where
  "pde_indices N_t N_x = concat (map (\<lambda>i. map (\<lambda>j. (i, j)) [1..<N_x - 1]) [1..<N_t - 1])"

text \<open>The indices at which a coefficient array is not zero.\<close>

definition support :: "array2 \<Rightarrow> (nat \<times> nat) list" where
  "support mat =
     concat (map (\<lambda>i. map (\<lambda>j. (i, j)) (filter (\<lambda>j. mat ! i ! j \<noteq> 0) [0..<length (mat ! i)]))
                [0..<length mat])"

text \<open>All indices of a field of shape \<open>(N_t, N_x)\<close>: the unknowns.\<close>

definition all_indices :: "nat \<Rightarrow> nat \<Rightarrow> (nat \<times> nat) set" where
  "all_indices N_t N_x = {0..<N_t} \<times> {0..<N_x}"

text \<open>The indices at which some array of a list is not zero.\<close>

definition support_union :: "array2 list \<Rightarrow> (nat \<times> nat) set" where
  "support_union mats = (\<Union>mat \<in> set mats. set (support mat))"

subsection \<open>The 2-D wave equation, CTCS: the stencil and the initial Neumann equations\<close>

text \<open>
  The field of the 2-D example has shape \<open>(N_t, N_x, N_y)\<close>, and so has the coefficient
  array of each equation.
\<close>

type_synonym array3 = "real list list list"

definition zeros3 :: "nat \<Rightarrow> nat \<Rightarrow> nat \<Rightarrow> array3" where
  "zeros3 n m l = replicate n (replicate m (replicate l 0))"

text \<open>
  \<^verbatim>\<open>mat[i,j,k] = v\<close> for a constant \<open>v\<close>, and \<^verbatim>\<open>mat[i,j,k] += rhs\<close>, which reads the
  entry before it evaluates the right-hand side.
\<close>

definition set_at3 :: "array3 \<Rightarrow> int \<Rightarrow> int \<Rightarrow> int \<Rightarrow> real \<Rightarrow> error + array3" where
  "set_at3 mat i j k v =
     bind_err (py_index (length mat) i) (\<lambda>i'.
     bind_err (py_index (length (mat ! i')) j) (\<lambda>j'.
     bind_err (py_index (length (mat ! i' ! j')) k) (\<lambda>k'.
       Inr (mat[i' := (mat ! i')[j' := (mat ! i' ! j')[k' := v]]]))))"

definition add_at3 :: "array3 \<Rightarrow> int \<Rightarrow> int \<Rightarrow> int \<Rightarrow> error + real \<Rightarrow> error + array3" where
  "add_at3 mat i j k rhs =
     bind_err (py_index (length mat) i) (\<lambda>i'.
     bind_err (py_index (length (mat ! i')) j) (\<lambda>j'.
     bind_err (py_index (length (mat ! i' ! j')) k) (\<lambda>k'.
     bind_err rhs (\<lambda>v.
       Inr (mat[i' := (mat ! i')[j' := (mat ! i' ! j')[k' := mat ! i' ! j' ! k' + v]]])))))"

type_synonym system3 = "array3 list \<times> real list"

definition append_eq3 :: "system3 \<Rightarrow> array3 \<Rightarrow> real \<Rightarrow> system3" where
  "append_eq3 s mat rhs = (fst s @ [mat], snd s @ [rhs])"

text \<open>
  The stencil of the 2-D cell "differential equation definition", for one \<open>(i, j, k)\<close>:
  \<^verbatim>\<open>
  mat = np.zeros((N_t, N_x, N_y))
  mat[i,j,k] += -2/dt/dt
  mat[i-1,j,k] += 1/dt/dt
  mat[i+1,j,k] += 1/dt/dt
  mat[i,j,k] += (c*c/dx/dx) * 2
  mat[i,j+1,k] += -(c*c/dx/dx)
  mat[i,j-1,k] += -(c*c/dx/dx)
  mat[i,j,k] += (c*c/dy/dy) * 2
  mat[i,j,k+1] += -(c*c/dy/dy)
  mat[i,j,k-1] += -(c*c/dy/dy)
  \<close>
  statement by statement, with real quotients as in the 1-D stencil.
\<close>

definition stencil_2d ::
  "real \<Rightarrow> real \<Rightarrow> real \<Rightarrow> real \<Rightarrow> nat \<Rightarrow> nat \<Rightarrow> nat \<Rightarrow> nat \<Rightarrow> nat \<Rightarrow> nat \<Rightarrow>
   error + array3" where
  "stencil_2d dt dx dy c N_t N_x N_y i j k =
     bind_err (add_at3 (zeros3 N_t N_x N_y) (int i) (int j) (int k)
                 (bind_err (py_div (- 2) dt) (\<lambda>q. py_div q dt))) (\<lambda>mat.
     bind_err (add_at3 mat (int i - 1) (int j) (int k)
                 (bind_err (py_div 1 dt) (\<lambda>q. py_div q dt))) (\<lambda>mat.
     bind_err (add_at3 mat (int i + 1) (int j) (int k)
                 (bind_err (py_div 1 dt) (\<lambda>q. py_div q dt))) (\<lambda>mat.
     bind_err (add_at3 mat (int i) (int j) (int k)
                 (bind_err (py_div (c * c) dx) (\<lambda>q.
                  bind_err (py_div q dx) (\<lambda>q. Inr (q * 2))))) (\<lambda>mat.
     bind_err (add_at3 mat (int i) (int j + 1) (int k)
                 (bind_err (py_div (c * c) dx) (\<lambda>q.
                  bind_err (py_div q dx) (\<lambda>q. Inr (- q))))) (\<lambda>mat.
     bind_err (add_at3 mat (int i) (int j - 1) (int k)
                 (bind_err (py_div (c * c) dx) (\<lambda>q.
                  bind_err (py_div q dx) (\<lambda>q. Inr (- q))))) (\<lambda>mat.
     bind_err (add_at3 mat (int i) (int j) (int k)
                 (bind_err (py_div (c * c) dy) (\<lambda>q.
                  bind_err (py_div q dy) (\<lambda>q. Inr (q * 2))))) (\<lambda>mat.
     bind_err (add_at3 mat (int i) (int j) (int k + 1)
                 (bind_err (py_div (c * c) dy) (\<lambda>q.
                  bind_err (py_div q dy) (\<lambda>q. Inr (- q))))) (\<lambda>mat.
     add_at3 mat (int i) (int j) (int k - 1)
                 (bind_err (py_div (c * c) dy) (\<lambda>q.
                  bind_err (py_div q dy) (\<lambda>q. Inr (- q))))))))))))"

text \<open>
  \<^verbatim>\<open>
  for i in range(1,N_t-1):
      for j in range(1,N_x-1):
          for k in range(1,N_y-1):
              ... the stencil ...
              eqs.append(mat)
              col.append( f(t[i],x[j],y[k]) )
  \<close>
\<close>

definition pde_body_2d ::
  "real \<Rightarrow> real \<Rightarrow> real \<Rightarrow> real \<Rightarrow> (real \<Rightarrow> real \<Rightarrow> real \<Rightarrow> real) \<Rightarrow>
   real list \<Rightarrow> real list \<Rightarrow> real list \<Rightarrow> nat \<Rightarrow> nat \<Rightarrow> nat \<Rightarrow> nat \<Rightarrow> nat \<Rightarrow> nat \<Rightarrow>
   system3 \<Rightarrow> error + system3" where
  "pde_body_2d dt dx dy c f t x y N_t N_x N_y i j k s =
     bind_err (stencil_2d dt dx dy c N_t N_x N_y i j k) (\<lambda>mat.
       Inr (append_eq3 s mat (f (t ! i) (x ! j) (y ! k))))"

definition pde_loop_2d ::
  "real \<Rightarrow> real \<Rightarrow> real \<Rightarrow> real \<Rightarrow> (real \<Rightarrow> real \<Rightarrow> real \<Rightarrow> real) \<Rightarrow>
   real list \<Rightarrow> real list \<Rightarrow> real list \<Rightarrow> nat \<Rightarrow> nat \<Rightarrow> nat \<Rightarrow> system3 \<Rightarrow> error + system3" where
  "pde_loop_2d dt dx dy c f t x y N_t N_x N_y s =
     for_range [1..<N_t - 1] (\<lambda>i.
       for_range [1..<N_x - 1] (\<lambda>j.
         for_range [1..<N_y - 1] (\<lambda>k. pde_body_2d dt dx dy c f t x y N_t N_x N_y i j k))) s"

text \<open>
  \<^verbatim>\<open>
  # IVP Neumann
  for j in range(1,N_x-1):
      for k in range(1,N_y-1):
          mat = np.zeros((N_t, N_x, N_y))
          mat[0+1,j,k] = 1
          mat[0,j,k] = -1
          eqs.append(mat)
          col.append( g_1(x[j],y[k]) )
  \<close>
\<close>

definition ivp_neumann_loop_2d ::
  "real list \<Rightarrow> real list \<Rightarrow> nat \<Rightarrow> nat \<Rightarrow> nat \<Rightarrow> (real \<Rightarrow> real \<Rightarrow> real) \<Rightarrow>
   system3 \<Rightarrow> error + system3" where
  "ivp_neumann_loop_2d x y N_t N_x N_y g_1 s =
     for_range [1..<N_x - 1] (\<lambda>j.
       for_range [1..<N_y - 1] (\<lambda>k s.
         bind_err (set_at3 (zeros3 N_t N_x N_y) (0 + 1) (int j) (int k) 1) (\<lambda>mat.
         bind_err (set_at3 mat 0 (int j) (int k) (- 1)) (\<lambda>mat.
           Inr (append_eq3 s mat (g_1 (x ! j) (y ! k))))))) s"

text \<open>
  The index triples that the 2-D stencil loop visits, in its order.
\<close>

definition pde_indices_2d :: "nat \<Rightarrow> nat \<Rightarrow> nat \<Rightarrow> (nat \<times> nat \<times> nat) list" where
  "pde_indices_2d N_t N_x N_y =
     concat (map (\<lambda>i. concat (map (\<lambda>j. map (\<lambda>k. (i, j, k)) [1..<N_y - 1]) [1..<N_x - 1]))
                 [1..<N_t - 1])"

subsection \<open>The time loop without its error branch, and its invariant\<close>

text \<open>
  \<open>heat_row_step\<close> is what one iteration of the time loop writes when \<open>dx\<close> is not zero.
  \<open>heat_inv\<close> is the loop invariant after \<open>n\<close> iterations: the shape of the array, the
  first and last column and row 0 as the boundary fill left them, and the update formula
  between rows \<open>i\<close> and \<open>i + 1\<close> for every \<open>i < n\<close>.
\<close>

definition heat_row_step ::
  "real \<Rightarrow> real \<Rightarrow> real \<Rightarrow> (real \<Rightarrow> real \<Rightarrow> real) \<Rightarrow> real list \<Rightarrow> real list \<Rightarrow>
   nat \<Rightarrow> array2 \<Rightarrow> array2" where
  "heat_row_step a dt dx f t x i u =
     u[i + 1 := set_inner (u ! (i + 1)) (heat_rhs a dt dx f (t ! i) x (u ! i))]"

definition heat_inv ::
  "real \<Rightarrow> real \<Rightarrow> real \<Rightarrow> (real \<Rightarrow> real \<Rightarrow> real) \<Rightarrow> real list \<Rightarrow> real list \<Rightarrow>
   nat \<Rightarrow> nat \<Rightarrow> array2 \<Rightarrow> nat \<Rightarrow> array2 \<Rightarrow> bool" where
  "heat_inv a dt dx f t x N_t N_x u0 n u \<longleftrightarrow>
     length u = N_t \<and> (\<forall>i<N_t. length (u ! i) = N_x) \<and>
     (\<forall>i<N_t. u ! i ! 0 = u0 ! i ! 0 \<and> u ! i ! (N_x - 1) = u0 ! i ! (N_x - 1)) \<and>
     u ! 0 = u0 ! 0 \<and>
     (\<forall>i<n. \<forall>j. 1 \<le> j \<and> j < N_x - 1 \<longrightarrow>
        u ! (i + 1) ! j =
          u ! i ! j + (a * dt / dx / dx) * (u ! i ! (j - 1) + u ! i ! (j + 1) - 2 * u ! i ! j)
            + dt * f (t ! i) (x ! j))"


subsection \<open>Coefficient arrays written out\<close>

text \<open>
  \<open>shape\<close> says that an array has \<open>n\<close> rows of length \<open>m\<close>; \<open>upd\<close> is an element
  assignment whose indices are in range.  \<open>stencil_mat\<close>, \<open>unit_mat\<close> and \<open>neumann_mat\<close> are
  the arrays that the stencil, a Dirichlet or boundary statement, and the Neumann
  statements produce when no index is out of range and no divisor is zero.
\<close>

definition shape :: "nat \<Rightarrow> nat \<Rightarrow> array2 \<Rightarrow> bool" where
  "shape n m mat \<longleftrightarrow> length mat = n \<and> (\<forall>p<n. length (mat ! p) = m)"

definition upd :: "array2 \<Rightarrow> nat \<Rightarrow> nat \<Rightarrow> real \<Rightarrow> array2" where
  "upd mat i j v = mat[i := (mat ! i)[j := v]]"

definition inc :: "array2 \<Rightarrow> nat \<Rightarrow> nat \<Rightarrow> real \<Rightarrow> array2" where
  "inc mat i j v = upd mat i j (mat ! i ! j + v)"

definition stencil_mat :: "real \<Rightarrow> real \<Rightarrow> real \<Rightarrow> nat \<Rightarrow> nat \<Rightarrow> nat \<Rightarrow> nat \<Rightarrow> array2" where
  "stencil_mat dt dx c N_t N_x i j =
     inc (inc (inc (inc (inc (inc (zeros N_t N_x)
       i j (- 2 / dt / dt))
       (i - 1) j (1 / dt / dt))
       (i + 1) j (1 / dt / dt))
       i j ((c * c / dx / dx) * 2))
       i (j + 1) (- (c * c / dx / dx)))
       i (j - 1) (- (c * c / dx / dx))"

definition unit_mat :: "nat \<Rightarrow> nat \<Rightarrow> nat \<Rightarrow> nat \<Rightarrow> array2" where
  "unit_mat N_t N_x i j = upd (zeros N_t N_x) i j 1"

definition neumann_mat :: "nat \<Rightarrow> nat \<Rightarrow> nat \<Rightarrow> array2" where
  "neumann_mat N_t N_x j = upd (upd (zeros N_t N_x) 1 j 1) 0 j (- 1)"

text \<open>
  The two lists that the assembly builds when nothing raises: the stencil equations in the
  order of \<open>pde_indices\<close>, the initial Dirichlet and Neumann equations, and the equations
  of the first and of the last column.
\<close>

definition wave_eqs :: "real \<Rightarrow> real \<Rightarrow> real \<Rightarrow> nat \<Rightarrow> nat \<Rightarrow> array2 list" where
  "wave_eqs dt dx c N_t N_x =
     map (\<lambda>(i, j). stencil_mat dt dx c N_t N_x i j) (pde_indices N_t N_x) @
     map (\<lambda>j. unit_mat N_t N_x 0 j) [0..<N_x] @
     map (\<lambda>j. neumann_mat N_t N_x j) [1..<N_x - 1] @
     map (\<lambda>i. unit_mat N_t N_x i 0) [1..<N_t] @
     map (\<lambda>i. unit_mat N_t N_x i (N_x - 1)) [1..<N_t]"

definition wave_col ::
  "(real \<Rightarrow> real \<Rightarrow> real) \<Rightarrow> real list \<Rightarrow> real list \<Rightarrow> (real \<Rightarrow> real) \<Rightarrow> (real \<Rightarrow> real) \<Rightarrow>
   real \<Rightarrow> real \<Rightarrow> nat \<Rightarrow> nat \<Rightarrow> real list" where
  "wave_col f t x g_0 g_1 h_1 h_2 N_t N_x =
     map (\<lambda>(i, j). f (t ! i) (x ! j)) (pde_indices N_t N_x) @
     map (\<lambda>j. g_0 (x ! j)) [0..<N_x] @
     map (\<lambda>j. g_1 (x ! j)) [1..<N_x - 1] @
     map (\<lambda>i. h_1) [1..<N_t] @
     map (\<lambda>i. h_2) [1..<N_t]"

text \<open>The same for the arrays of the 2-D example.\<close>

definition inc3 :: "array3 \<Rightarrow> nat \<Rightarrow> nat \<Rightarrow> nat \<Rightarrow> real \<Rightarrow> array3" where
  "inc3 mat i j k v = mat[i := (mat ! i)[j := (mat ! i ! j)[k := mat ! i ! j ! k + v]]]"

definition stencil_mat3 ::
  "real \<Rightarrow> real \<Rightarrow> real \<Rightarrow> real \<Rightarrow> nat \<Rightarrow> nat \<Rightarrow> nat \<Rightarrow> nat \<Rightarrow> nat \<Rightarrow> nat \<Rightarrow> array3" where
  "stencil_mat3 dt dx dy c N_t N_x N_y i j k =
     inc3 (inc3 (inc3 (inc3 (inc3 (inc3 (inc3 (inc3 (inc3 (zeros3 N_t N_x N_y)
       i j k (- 2 / dt / dt))
       (i - 1) j k (1 / dt / dt))
       (i + 1) j k (1 / dt / dt))
       i j k ((c * c / dx / dx) * 2))
       i (j + 1) k (- (c * c / dx / dx)))
       i (j - 1) k (- (c * c / dx / dx)))
       i j k ((c * c / dy / dy) * 2))
       i j (k + 1) (- (c * c / dy / dy)))
       i j (k - 1) (- (c * c / dy / dy))"

section \<open>Properties of grid creation\<close>

lemma linspace_ok:
  "0 \<le> num \<Longrightarrow> \<exists>xs. linspace start stop num = Inr xs \<and> length xs = nat num"
  by (auto simp: linspace_def)

lemma linspace_nth:
  assumes "2 \<le> num" "k < nat num"
  shows "linspace start stop num = Inr xs \<Longrightarrow>
         xs ! k = start + real k * ((stop - start) / real_of_int (num - 1))"
  using assms by (auto simp: linspace_def)

lemma create_grid_Inr:
  assumes "0 < N_x" "0 < N_t"
  shows "\<exists>x t. linspace x_1 x_2 N_x = Inr x \<and> linspace 0 t_f N_t = Inr t \<and>
           create_grid x_1 x_2 t_f N_x N_t =
             Inr \<lparr>grid_dx = (x_2 - x_1) / real_of_int N_x, grid_dt = t_f / real_of_int N_t,
                  grid_x = x, grid_t = t\<rparr>"
proof -
  obtain x where x: "linspace x_1 x_2 N_x = Inr x"
    using linspace_ok [of N_x x_1 x_2] assms by auto
  obtain t where t: "linspace 0 t_f N_t = Inr t"
    using linspace_ok [of N_t 0 t_f] assms by auto
  show ?thesis
    using assms x t by (simp add: create_grid_def step_size_def)
qed

lemma create_grid_Inl:
  assumes "\<not> (0 < N_x \<and> 0 < N_t)"
  shows "create_grid x_1 x_2 t_f N_x N_t = Inl ZeroDivisionError \<or>
         create_grid x_1 x_2 t_f N_x N_t = Inl ValueError"
  using assms by (auto simp: create_grid_def step_size_def linspace_def split: sum.splits)

text \<open>
  C7 (amended).  Grid creation validates nothing.  Sample counts are taken in the range
  \<open>|N| < 2\<^sup>5\<^sup>3\<close>, where \<^verbatim>\<open>float(N)\<close> is \<open>N\<close> itself.  There, two counts of at least 1 give a
  grid, whatever the order of the end points; \<open>N_x = 0\<close>, or \<open>N_t = 0\<close> with \<open>N_x\<close> nonzero,
  raises ZeroDivisionError; and, with no count 0, a negative count raises ValueError.  A
  grid that is returned has both counts at least 1 and the steps \<open>(x_2 - x_1) / N_x\<close> and
  \<open>t_f / N_t\<close>; such a step is positive only if the end points are in increasing order, and
  nothing makes it positive.
\<close>

theorem create_grid_accepts:
  "(1 \<le> N_x \<and> N_x < 2 ^ 53 \<and> 1 \<le> N_t \<and> N_t < 2 ^ 53 \<longrightarrow>
      (\<exists>g. create_grid x_1 x_2 t_f N_x N_t = Inr g)) \<and>
   (N_x = 0 \<longrightarrow> create_grid x_1 x_2 t_f N_x N_t = Inl ZeroDivisionError) \<and>
   (N_x \<noteq> 0 \<and> - (2 ^ 53) < N_x \<and> N_x < 2 ^ 53 \<and> N_t = 0 \<longrightarrow>
      create_grid x_1 x_2 t_f N_x N_t = Inl ZeroDivisionError) \<and>
   (N_x \<noteq> 0 \<and> - (2 ^ 53) < N_x \<and> N_x < 2 ^ 53 \<and>
    N_t \<noteq> 0 \<and> - (2 ^ 53) < N_t \<and> N_t < 2 ^ 53 \<and> (N_x < 0 \<or> N_t < 0) \<longrightarrow>
      create_grid x_1 x_2 t_f N_x N_t = Inl ValueError) \<and>
   (\<forall>g. create_grid x_1 x_2 t_f N_x N_t = Inr g \<longrightarrow>
      1 \<le> N_x \<and> 1 \<le> N_t \<and>
      grid_dx g = (x_2 - x_1) / real_of_int N_x \<and> grid_dt g = t_f / real_of_int N_t \<and>
      (0 < grid_dx g \<longrightarrow> x_1 < x_2) \<and> (0 < grid_dt g \<longrightarrow> 0 < t_f))"
proof -
  have z: "N_x = 0 \<or> N_t = 0 \<longrightarrow> create_grid x_1 x_2 t_f N_x N_t = Inl ZeroDivisionError"
    by (auto simp: create_grid_def step_size_def)
  have v: "N_x \<noteq> 0 \<and> N_t \<noteq> 0 \<and> (N_x < 0 \<or> N_t < 0) \<longrightarrow>
      create_grid x_1 x_2 t_f N_x N_t = Inl ValueError"
    by (auto simp: create_grid_def step_size_def linspace_def)
  have r: "(1 \<le> N_x \<and> 1 \<le> N_t \<longrightarrow> (\<exists>g. create_grid x_1 x_2 t_f N_x N_t = Inr g)) \<and>
     (\<forall>g. create_grid x_1 x_2 t_f N_x N_t = Inr g \<longrightarrow>
        1 \<le> N_x \<and> 1 \<le> N_t \<and>
        grid_dx g = (x_2 - x_1) / real_of_int N_x \<and> grid_dt g = t_f / real_of_int N_t \<and>
        (0 < grid_dx g \<longrightarrow> x_1 < x_2) \<and> (0 < grid_dt g \<longrightarrow> 0 < t_f))"
  proof (cases "0 < N_x \<and> 0 < N_t")
    case True
    then obtain x t where g: "create_grid x_1 x_2 t_f N_x N_t =
        Inr \<lparr>grid_dx = (x_2 - x_1) / real_of_int N_x, grid_dt = t_f / real_of_int N_t,
             grid_x = x, grid_t = t\<rparr>"
      using create_grid_Inr [of N_x N_t x_1 x_2 t_f] by blast
    from True have "0 < real_of_int N_x" "0 < real_of_int N_t" by simp_all
    then have "(0 < (x_2 - x_1) / real_of_int N_x \<longleftrightarrow> x_1 < x_2)"
              "(0 < t_f / real_of_int N_t \<longleftrightarrow> 0 < t_f)"
      by (simp_all add: zero_less_divide_iff)
    with True g show ?thesis by auto
  next
    case False
    then show ?thesis using create_grid_Inl [OF False, of x_1 x_2 t_f] by auto
  qed
  from z v r show ?thesis by blast
qed

theorem create_grid_accepts_witness:
  "create_grid 3 (-3) 20 1 1 =
     Inr \<lparr>grid_dx = -6, grid_dt = 20, grid_x = [3], grid_t = [0]\<rparr> \<and>
   grid_dx \<lparr>grid_dx = -6, grid_dt = 20, grid_x = [3], grid_t = [0]\<rparr> = (-3 - 3) / real_of_int 1 \<and>
   \<not> 0 < grid_dx \<lparr>grid_dx = -6, grid_dt = 20, grid_x = [3], grid_t = [0::real]\<rparr> \<and>
   create_grid (-3) 3 20 0 100 = Inl ZeroDivisionError \<and>
   create_grid (-3) 3 20 21 0 = Inl ZeroDivisionError \<and>
   create_grid (-3) 3 20 21 (-100) = Inl ValueError"
proof -
  have g: "create_grid 3 (-3) 20 1 1 =
     Inr \<lparr>grid_dx = -6, grid_dt = 20, grid_x = [3], grid_t = [0]\<rparr>"
    by (simp add: create_grid_def step_size_def linspace_def)
  have a: "create_grid 3 (-3) 20 1 1 =
       Inr \<lparr>grid_dx = -6, grid_dt = 20, grid_x = [3], grid_t = [0]\<rparr> \<and>
     grid_dx \<lparr>grid_dx = -6, grid_dt = 20, grid_x = [3], grid_t = [0]\<rparr> =
       (-3 - 3) / real_of_int 1 \<and>
     \<not> 0 < grid_dx \<lparr>grid_dx = -6, grid_dt = 20, grid_x = [3], grid_t = [0::real]\<rparr>"
    using g create_grid_accepts [of 1 1 3 "-3" 20] by simp
  have b: "create_grid (-3) 3 20 0 100 = Inl ZeroDivisionError"
    using create_grid_accepts [of 0 100 "-3" 3 20] by simp
  have c: "create_grid (-3) 3 20 21 0 = Inl ZeroDivisionError"
    using create_grid_accepts [of 21 0 "-3" 3 20] by simp
  have d: "create_grid (-3) 3 20 21 (-100) = Inl ValueError"
    using create_grid_accepts [of 21 "-100" "-3" 3 20] by simp
  from a b c d show ?thesis by (intro conjI) blast+
qed

text \<open>
  C7 (as stated) fails: a time axis of one sample and a spatial axis that runs from 3 down to
  -3 are both accepted, no error is raised, and the spatial step is negative.
\<close>

theorem create_grid_no_validation:
  "create_grid 3 (-3) 20 2 1 =
     Inr \<lparr>grid_dx = -3, grid_dt = 20, grid_x = [3, -3], grid_t = [0]\<rparr> \<and>
   \<not> 0 < grid_dx \<lparr>grid_dx = -3, grid_dt = 20, grid_x = [3, -3], grid_t = [0::real]\<rparr>"
  by (simp add: create_grid_def step_size_def linspace_def upt_conv_Cons)

subsection \<open>Coordinate spacing against the step size\<close>

text \<open>
  C10 (amended).  For an axis of \<open>count \<ge> 2\<close> samples from \<open>start\<close> to \<open>end\<close>, consecutive
  coordinates differ by \<open>(end - start) / (count - 1)\<close>, while the step size that enters the
  finite-difference coefficients is \<open>(end - start) / count\<close>.  When \<open>start < end\<close> the spacing
  is strictly greater than the step size, and whenever \<open>start \<noteq> end\<close> the two differ.
\<close>

theorem axis_spacing:
  assumes "2 \<le> num"
  shows "\<exists>xs. linspace start stop num = Inr xs \<and> length xs = nat num \<and>
     step_size start stop num = Inr ((stop - start) / real_of_int num) \<and>
     (\<forall>k. Suc k < nat num \<longrightarrow>
        xs ! Suc k - xs ! k = (stop - start) / real_of_int (num - 1)) \<and>
     (start < stop \<longrightarrow>
        (stop - start) / real_of_int num < (stop - start) / real_of_int (num - 1)) \<and>
     (start \<noteq> stop \<longrightarrow>
        (stop - start) / real_of_int num \<noteq> (stop - start) / real_of_int (num - 1))"
proof -
  from assms obtain xs where xs: "linspace start stop num = Inr xs" "length xs = nat num"
    using linspace_ok [of num start stop] by auto
  from assms have st: "step_size start stop num = Inr ((stop - start) / real_of_int num)"
    by (simp add: step_size_def)
  have sp: "xs ! Suc k - xs ! k = (stop - start) / real_of_int (num - 1)"
    if k: "Suc k < nat num" for k
  proof -
    from k have "k < nat num" by simp
    from linspace_nth [OF assms k xs(1)] linspace_nth [OF assms this xs(1)]
    have "xs ! Suc k - xs ! k =
        (1 + real k) * ((stop - start) / real_of_int (num - 1))
        - real k * ((stop - start) / real_of_int (num - 1))"
      by simp
    also have "\<dots> = (stop - start) / real_of_int (num - 1)"
      by (simp only: left_diff_distrib [symmetric]) simp
    finally show ?thesis .
  qed
  have pos: "0 < real_of_int (num - 1)" "real_of_int (num - 1) < real_of_int num"
    using assms by simp_all
  have lt: "(stop - start) / real_of_int num < (stop - start) / real_of_int (num - 1)"
    if "start < stop"
    using that pos by (intro divide_strict_left_mono mult_pos_pos) simp_all
  have ne: "(stop - start) / real_of_int num \<noteq> (stop - start) / real_of_int (num - 1)"
    if "start \<noteq> stop"
  proof
    assume "(stop - start) / real_of_int num = (stop - start) / real_of_int (num - 1)"
    with pos have "(stop - start) * real_of_int (num - 1) = (stop - start) * real_of_int num"
      by (simp add: field_simps)
    with that have "real_of_int (num - 1) = real_of_int num" by simp
    with pos show False by simp
  qed
  show ?thesis using xs st sp lt ne by blast
qed

theorem axis_spacing_witness:
  "linspace 0 3 3 = Inr [0, 3/2, 3] \<and> step_size 0 3 3 = Inr 1 \<and>
   [0, 3/2, 3::real] ! Suc 0 - [0, 3/2, 3] ! 0 = (3 - 0) / real_of_int (3 - 1) \<and>
   [0, 3/2, 3::real] ! Suc 1 - [0, 3/2, 3] ! 1 = (3 - 0) / real_of_int (3 - 1) \<and>
   (3 - 0) / real_of_int 3 < ((3 - 0) / real_of_int (3 - 1) :: real)"
proof -
  have l: "linspace 0 3 3 = Inr [0, 3/2, 3]"
    by (simp add: linspace_def upt_conv_Cons)
  have h: "(2::int) \<le> 3" by simp
  from axis_spacing [OF h, of 0 3] l show ?thesis by (simp add: step_size_def)
qed

text \<open>
  C10 (as stated) has no condition on the end points.  On a reversed axis the spacing is
  the smaller of the two numbers, and on an axis with \<open>start = end\<close> both are 0.
\<close>

theorem axis_reversed_or_degenerate:
  "linspace 3 (-3) 2 = Inr [3, -3] \<and> step_size 3 (-3) 2 = Inr (-3) \<and>
   \<not> (-3 < [3, -3::real] ! Suc 0 - [3, -3] ! 0) \<and>
   linspace 1 1 2 = Inr [1, 1] \<and> step_size 1 1 2 = Inr 0 \<and>
   [1, 1::real] ! Suc 0 - [1, 1] ! 0 = 0"
  by (simp add: linspace_def step_size_def upt_conv_Cons)


section \<open>Properties of the explicit heat stepper\<close>

subsection \<open>Slices and one step\<close>

lemma for_range_pure:
  assumes "\<And>i s. body i s = Inr (g i s)"
  shows "for_range is body s = Inr (fold g is s)"
  using assms by (induction "is" arbitrary: s) simp_all

lemma length_inner [simp]: "length (inner v) = length v - 2"
  by (simp add: inner_def)

lemma inner_nth: "k < length v - 2 \<Longrightarrow> inner v ! k = v ! Suc k"
  by (simp add: inner_def nth_butlast nth_tl)

lemma length_heat_rhs:
  "length x = length row \<Longrightarrow> length (heat_rhs a dt dx f t_i x row) = length row - 2"
  by (simp add: heat_rhs_def vadd_def vsub_def smul_def)

lemma heat_rhs_nth:
  assumes "length x = length row" "k < length row - 2"
  shows "heat_rhs a dt dx f t_i x row ! k =
     row ! Suc k + (a * dt / dx / dx) * (row ! k + row ! (k + 2) - 2 * row ! Suc k)
       + dt * f t_i (x ! Suc k)"
  using assms by (simp add: heat_rhs_def vadd_def vsub_def smul_def inner_nth)

lemma length_set_inner:
  "length w = length v - 2 \<Longrightarrow> length (set_inner v w) = length v"
  by (auto simp: set_inner_def)

lemma set_inner_nth_0: "set_inner v w ! 0 = v ! 0"
  by (cases v) (simp_all add: set_inner_def)

lemma set_inner_nth_last:
  "length w = length v - 2 \<Longrightarrow> set_inner v w ! (length v - 1) = v ! (length v - 1)"
proof (cases "length v < 2")
  case True
  then show ?thesis by (simp add: set_inner_def)
next
  case False
  then have v: "v \<noteq> []" by auto
  assume w: "length w = length v - 2"
  have "(hd v # w @ [last v]) ! (length v - 1) = (w @ [last v]) ! (length v - 2)"
  proof -
    from False obtain m where m: "length v - 1 = Suc m" "length v - 2 = m"
      by (cases "length v - 1") auto
    then show ?thesis by simp
  qed
  also have "\<dots> = last v" using w by (simp add: nth_append)
  also have "\<dots> = v ! (length v - 1)" using v by (simp add: last_conv_nth)
  finally show ?thesis using False by (simp add: set_inner_def)
qed

lemma set_inner_nth_mid:
  "length w = length v - 2 \<Longrightarrow> 1 \<le> j \<Longrightarrow> j < length v - 1 \<Longrightarrow> set_inner v w ! j = w ! (j - 1)"
  by (auto simp: set_inner_def nth_Cons nth_append split: nat.splits)

lemma heat_loop_pure:
  "dx \<noteq> 0 \<Longrightarrow>
   for_range is (heat_step a dt dx f t x) u = Inr (fold (heat_row_step a dt dx f t x) is u)"
  by (rule for_range_pure) (simp add: heat_step_def heat_row_step_def)

lemma heat_inv_0:
  "length u0 = N_t \<Longrightarrow> \<forall>i<N_t. length (u0 ! i) = N_x \<Longrightarrow> heat_inv a dt dx f t x N_t N_x u0 0 u0"
  by (simp add: heat_inv_def)

lemma heat_inv_step:
  assumes inv: "heat_inv a dt dx f t x N_t N_x u0 n u" and n: "n + 1 < N_t"
    and x: "length x = N_x"
  shows "heat_inv a dt dx f t x N_t N_x u0 (n + 1) (heat_row_step a dt dx f t x n u)"
proof -
  let ?rhs = "heat_rhs a dt dx f (t ! n) x (u ! n)"
  let ?new = "set_inner (u ! (n + 1)) ?rhs"
  let ?u' = "heat_row_step a dt dx f t x n u"
  from inv have len: "length u = N_t" and rows: "\<forall>i<N_t. length (u ! i) = N_x"
    by (simp_all add: heat_inv_def)
  from rows n have rn: "length (u ! n) = N_x" and rn1: "length (u ! (n + 1)) = N_x" by simp_all
  have lrhs: "length ?rhs = N_x - 2"
    using length_heat_rhs [of x "u ! n"] x rn by simp
  have lnew: "length ?new = N_x"
    using length_set_inner [of ?rhs "u ! (n + 1)"] lrhs rn1 by simp
  have nth_same: "?u' ! i = u ! i" if "i \<noteq> n + 1" for i
    using that by (simp add: heat_row_step_def)
  have nth_new: "?u' ! (n + 1) = ?new"
    using n len by (simp add: heat_row_step_def)
  have new0: "?new ! 0 = u ! (n + 1) ! 0" by (rule set_inner_nth_0)
  have newl: "?new ! (N_x - 1) = u ! (n + 1) ! (N_x - 1)"
    using set_inner_nth_last [of ?rhs "u ! (n + 1)"] lrhs rn1 by simp
  have newm: "?new ! j =
      u ! n ! j + (a * dt / dx / dx) * (u ! n ! (j - 1) + u ! n ! (j + 1) - 2 * u ! n ! j)
        + dt * f (t ! n) (x ! j)" if j: "1 \<le> j" "j < N_x - 1" for j
  proof -
    have "?new ! j = ?rhs ! (j - 1)"
      using set_inner_nth_mid [of ?rhs "u ! (n + 1)" j] lrhs rn1 j by simp
    also have "\<dots> = u ! n ! Suc (j - 1)
        + (a * dt / dx / dx) * (u ! n ! (j - 1) + u ! n ! (j - 1 + 2) - 2 * u ! n ! Suc (j - 1))
        + dt * f (t ! n) (x ! Suc (j - 1))"
      using heat_rhs_nth [of x "u ! n" "j - 1"] x rn j by simp
    finally show ?thesis using j by (simp add: numeral_2_eq_2)
  qed
  have c1: "length ?u' = N_t" using len by (simp add: heat_row_step_def)
  have c2: "\<forall>i<N_t. length (?u' ! i) = N_x"
    using rows lnew nth_same nth_new by (metis)
  have c3: "\<forall>i<N_t. ?u' ! i ! 0 = u0 ! i ! 0 \<and> ?u' ! i ! (N_x - 1) = u0 ! i ! (N_x - 1)"
  proof (intro allI impI)
    fix i assume i: "i < N_t"
    from inv i have e: "u ! i ! 0 = u0 ! i ! 0" "u ! i ! (N_x - 1) = u0 ! i ! (N_x - 1)"
      by (simp_all add: heat_inv_def)
    show "?u' ! i ! 0 = u0 ! i ! 0 \<and> ?u' ! i ! (N_x - 1) = u0 ! i ! (N_x - 1)"
    proof (cases "i = n + 1")
      case True
      then show ?thesis using e nth_new new0 newl by simp
    next
      case False
      then show ?thesis using e nth_same by simp
    qed
  qed
  have c4: "?u' ! 0 = u0 ! 0"
    using inv nth_same [of 0] by (simp add: heat_inv_def)
  have c5: "?u' ! (i + 1) ! j =
          ?u' ! i ! j + (a * dt / dx / dx) * (?u' ! i ! (j - 1) + ?u' ! i ! (j + 1) - 2 * ?u' ! i ! j)
            + dt * f (t ! i) (x ! j)" if i: "i < n + 1" and j: "1 \<le> j" "j < N_x - 1" for i j
  proof (cases "i = n")
    case True
    then show ?thesis using newm [OF j] nth_new nth_same [of n] by simp
  next
    case False
    with i have "i < n" by simp
    then have "u ! (i + 1) ! j =
          u ! i ! j + (a * dt / dx / dx) * (u ! i ! (j - 1) + u ! i ! (j + 1) - 2 * u ! i ! j)
            + dt * f (t ! i) (x ! j)"
      using inv j by (simp add: heat_inv_def)
    moreover have "?u' ! (i + 1) = u ! (i + 1)" "?u' ! i = u ! i"
      using \<open>i < n\<close> nth_same [of "i + 1"] nth_same [of i] by simp_all
    ultimately show ?thesis by simp
  qed
  show ?thesis
    unfolding heat_inv_def using c1 c2 c3 c4 c5 by blast
qed

lemma heat_inv_fold:
  assumes "length u0 = N_t" "\<forall>i<N_t. length (u0 ! i) = N_x" "length x = N_x"
  shows "n < N_t \<Longrightarrow>
    heat_inv a dt dx f t x N_t N_x u0 n (fold (heat_row_step a dt dx f t x) [0..<n] u0)"
proof (induction n)
  case 0
  then show ?case using heat_inv_0 assms by simp
next
  case (Suc n)
  then have "heat_inv a dt dx f t x N_t N_x u0 n (fold (heat_row_step a dt dx f t x) [0..<n] u0)"
    by simp
  from heat_inv_step [OF this _ assms(3)] Suc.prems show ?case by simp
qed

lemma fill_boundary_props:
  assumes "0 < N_t" "0 < N_x" "length x = N_x"
  shows "\<exists>u0. fill_boundary x N_t N_x g_0 h_1 h_2 = Inr u0 \<and> length u0 = N_t \<and>
     (\<forall>i<N_t. length (u0 ! i) = N_x) \<and>
     (\<forall>i<N_t. u0 ! i ! 0 = (if N_x = 1 then h_2 else h_1) \<and> u0 ! i ! (N_x - 1) = h_2) \<and>
     (\<forall>j. 1 \<le> j \<and> j < N_x - 1 \<longrightarrow> u0 ! 0 ! j = g_0 (x ! j))"
proof -
  let ?z = "(zeros N_t N_x)[0 := map g_0 x]"
  let ?u0 = "map (\<lambda>row. row[N_x - 1 := h_2]) (map (\<lambda>row. row[0 := h_1]) ?z)"
  have eq: "fill_boundary x N_t N_x g_0 h_1 h_2 = Inr ?u0"
    using assms by (simp add: fill_boundary_def)
  have lz: "length ?z = N_t" by (simp add: zeros_def)
  have rz: "length (?z ! i) = N_x" if "i < N_t" for i
    using that assms by (cases i) (simp_all add: zeros_def)
  have row: "?u0 ! i = (?z ! i)[0 := h_1, N_x - 1 := h_2]" if "i < N_t" for i
    using that lz by simp
  have a: "length ?u0 = N_t" using lz by simp
  have b: "\<forall>i<N_t. length (?u0 ! i) = N_x" using row rz by simp
  have c: "\<forall>i<N_t. ?u0 ! i ! 0 = (if N_x = 1 then h_2 else h_1) \<and> ?u0 ! i ! (N_x - 1) = h_2"
    using row rz assms by (auto simp: nth_list_update)
  have d: "\<forall>j. 1 \<le> j \<and> j < N_x - 1 \<longrightarrow> ?u0 ! 0 ! j = g_0 (x ! j)"
    using row [of 0] assms by (auto simp: nth_list_update zeros_def)
  show ?thesis using eq a b c d by blast
qed

lemma heat_solve_inv:
  assumes "1 \<le> N_x" "1 \<le> N_t" "x_1 \<noteq> x_2 \<or> N_t = 1"
  shows "\<exists>g u0 u. create_grid x_1 x_2 t_f N_x N_t = Inr g \<and>
     grid_dx g = (x_2 - x_1) / real_of_int N_x \<and> grid_dt g = t_f / real_of_int N_t \<and>
     linspace x_1 x_2 N_x = Inr (grid_x g) \<and> linspace 0 t_f N_t = Inr (grid_t g) \<and>
     length (grid_x g) = nat N_x \<and>
     fill_boundary (grid_x g) (nat N_t) (nat N_x) g_0 h_1 h_2 = Inr u0 \<and>
     length u0 = nat N_t \<and>
     (\<forall>i<nat N_t. length (u0 ! i) = nat N_x) \<and>
     (\<forall>i<nat N_t. u0 ! i ! 0 = (if nat N_x = 1 then h_2 else h_1) \<and>
         u0 ! i ! (nat N_x - 1) = h_2) \<and>
     (\<forall>j. 1 \<le> j \<and> j < nat N_x - 1 \<longrightarrow> u0 ! 0 ! j = g_0 (grid_x g ! j)) \<and>
     heat_solve x_1 x_2 t_f N_x N_t a f g_0 h_1 h_2 = Inr u \<and>
     heat_inv a (grid_dt g) (grid_dx g) f (grid_t g) (grid_x g) (nat N_t) (nat N_x) u0
       (nat N_t - 1) u"
proof -
  from assms have pos: "0 < N_x" "0 < N_t" by simp_all
  obtain x t where x: "linspace x_1 x_2 N_x = Inr x" and t: "linspace 0 t_f N_t = Inr t"
    and g: "create_grid x_1 x_2 t_f N_x N_t =
             Inr \<lparr>grid_dx = (x_2 - x_1) / real_of_int N_x, grid_dt = t_f / real_of_int N_t,
                  grid_x = x, grid_t = t\<rparr>"
    using create_grid_Inr [OF pos, of x_1 x_2 t_f] by blast
  let ?g = "\<lparr>grid_dx = (x_2 - x_1) / real_of_int N_x, grid_dt = t_f / real_of_int N_t,
                  grid_x = x, grid_t = t\<rparr>"
  let ?dx = "(x_2 - x_1) / real_of_int N_x" and ?dt = "t_f / real_of_int N_t"
  have lx: "length x = nat N_x"
    using linspace_ok [of N_x x_1 x_2] x pos by auto
  obtain u0 where u0: "fill_boundary x (nat N_t) (nat N_x) g_0 h_1 h_2 = Inr u0"
      "length u0 = nat N_t" "\<forall>i<nat N_t. length (u0 ! i) = nat N_x"
      "\<forall>i<nat N_t. u0 ! i ! 0 = (if nat N_x = 1 then h_2 else h_1) \<and>
         u0 ! i ! (nat N_x - 1) = h_2"
      "\<forall>j. 1 \<le> j \<and> j < nat N_x - 1 \<longrightarrow> u0 ! 0 ! j = g_0 (x ! j)"
    using fill_boundary_props [of "nat N_t" "nat N_x" x g_0 h_1 h_2] pos lx by auto
  have rng: "nat (N_t - 1) = nat N_t - 1" by simp
  have lt: "nat N_t - 1 < nat N_t" using pos by simp
  have inv: "heat_inv a ?dt ?dx f t x (nat N_t) (nat N_x) u0 (nat N_t - 1)
      (fold (heat_row_step a ?dt ?dx f t x) [0..<nat N_t - 1] u0)"
    using heat_inv_fold [OF u0(2) u0(3) lx lt] .
  have loop: "for_range [0..<nat (N_t - 1)] (heat_step a ?dt ?dx f t x) u0 =
      Inr (fold (heat_row_step a ?dt ?dx f t x) [0..<nat N_t - 1] u0)"
  proof (cases "N_t = 1")
    case True
    then show ?thesis by simp
  next
    case False
    with assms have "x_1 \<noteq> x_2" by simp
    with pos have "?dx \<noteq> 0" by simp
    from heat_loop_pure [OF this] show ?thesis by (simp only: rng)
  qed
  have sol: "heat_solve x_1 x_2 t_f N_x N_t a f g_0 h_1 h_2 =
      Inr (fold (heat_row_step a ?dt ?dx f t x) [0..<nat N_t - 1] u0)"
    using g u0(1) loop by (simp add: heat_solve_def)
  show ?thesis
    apply (rule exI [of _ ?g], rule exI [of _ u0])
    apply (rule exI [of _ "fold (heat_row_step a ?dt ?dx f t x) [0..<nat N_t - 1] u0"])
    using g x t lx u0 sol inv by simp
qed


subsection \<open>The update formula\<close>

lemmas heat_eval = heat_solve_def create_grid_def step_size_def linspace_def fill_boundary_def
  zeros_def heat_step_def heat_rhs_def set_inner_def inner_def vadd_def vsub_def smul_def
  upt_conv_Cons eval_nat_numeral

text \<open>
  C2.  When the heat example runs on a grid with at least two spatial samples and distinct
  end points, it returns a field \<open>u\<close> of shape \<open>(N_t, N_x)\<close> in which, for every time
  index \<open>i\<close> in \<open>[0, N_t - 2]\<close> and every interior index \<open>j\<close> in \<open>[1, N_x - 2]\<close>,
  \<open>u[i+1][j] = u[i][j] + (a dt / dx\<^sup>2) (u[i][j+1] + u[i][j-1] - 2 u[i][j]) + dt f(t[i], x[j])\<close>,
  and the edges of the new row hold the boundary values \<open>h_1\<close> and \<open>h_2\<close>.
\<close>

theorem heat_update_formula:
  assumes "2 \<le> N_x" "1 \<le> N_t" "x_1 \<noteq> x_2"
  shows "\<exists>g u. create_grid x_1 x_2 t_f N_x N_t = Inr g \<and>
     heat_solve x_1 x_2 t_f N_x N_t a f g_0 h_1 h_2 = Inr u \<and>
     length u = nat N_t \<and> (\<forall>i<nat N_t. length (u ! i) = nat N_x) \<and>
     (\<forall>i j. int i \<le> N_t - 2 \<and> 1 \<le> j \<and> int j \<le> N_x - 2 \<longrightarrow>
        u ! (i + 1) ! j =
          u ! i ! j
          + (a * grid_dt g / (grid_dx g)\<^sup>2) * (u ! i ! (j + 1) + u ! i ! (j - 1) - 2 * u ! i ! j)
          + grid_dt g * f (grid_t g ! i) (grid_x g ! j)) \<and>
     (\<forall>i. int i \<le> N_t - 2 \<longrightarrow>
        u ! (i + 1) ! 0 = h_1 \<and> u ! (i + 1) ! (nat N_x - 1) = h_2)"
proof -
  from assms have "1 \<le> N_x" "x_1 \<noteq> x_2 \<or> N_t = 1" by simp_all
  from heat_solve_inv [OF this(1) assms(2) this(2), of t_f g_0 h_1 h_2 a f]
  obtain g u0 u where g: "create_grid x_1 x_2 t_f N_x N_t = Inr g"
    and u0: "\<forall>i<nat N_t. u0 ! i ! 0 = (if nat N_x = 1 then h_2 else h_1) \<and>
         u0 ! i ! (nat N_x - 1) = h_2"
    and u: "heat_solve x_1 x_2 t_f N_x N_t a f g_0 h_1 h_2 = Inr u"
    and inv: "heat_inv a (grid_dt g) (grid_dx g) f (grid_t g) (grid_x g) (nat N_t) (nat N_x) u0
       (nat N_t - 1) u"
    by blast
  have shape: "length u = nat N_t" "\<forall>i<nat N_t. length (u ! i) = nat N_x"
    using inv by (simp_all add: heat_inv_def)
  have edges: "u ! i ! 0 = h_1 \<and> u ! i ! (nat N_x - 1) = h_2" if "i < nat N_t" for i
  proof -
    from assms(1) have "nat N_x \<noteq> 1" by simp
    with inv u0 that show ?thesis by (simp add: heat_inv_def)
  qed
  have rec: "u ! (i + 1) ! j =
          u ! i ! j
          + (a * grid_dt g / (grid_dx g)\<^sup>2) * (u ! i ! (j + 1) + u ! i ! (j - 1) - 2 * u ! i ! j)
          + grid_dt g * f (grid_t g ! i) (grid_x g ! j)"
    if "int i \<le> N_t - 2" "1 \<le> j" "int j \<le> N_x - 2" for i j
  proof -
    from that have "i < nat N_t - 1" "1 \<le> j \<and> j < nat N_x - 1" by linarith+
    with inv have "u ! (i + 1) ! j =
          u ! i ! j + (a * grid_dt g / grid_dx g / grid_dx g) *
             (u ! i ! (j - 1) + u ! i ! (j + 1) - 2 * u ! i ! j)
            + grid_dt g * f (grid_t g ! i) (grid_x g ! j)"
      unfolding heat_inv_def by blast
    then show ?thesis by (simp add: power2_eq_square add.commute)
  qed
  have e2: "u ! (i + 1) ! 0 = h_1 \<and> u ! (i + 1) ! (nat N_x - 1) = h_2" if "int i \<le> N_t - 2" for i
  proof -
    from that have "i + 1 < nat N_t" by linarith
    then show ?thesis by (rule edges)
  qed
  show ?thesis using g u shape rec e2 by blast
qed

theorem heat_update_formula_witness:
  "heat_solve 0 3 2 3 2 1 (\<lambda>t x. 0 * x * t) (\<lambda>x. x) 5 7 = Inr [[5, 3/2, 7], [5, 21/2, 7]] \<and>
   create_grid 0 3 2 3 2 = Inr \<lparr>grid_dx = 1, grid_dt = 1, grid_x = [0, 3/2, 3], grid_t = [0, 2]\<rparr> \<and>
   [[5, 3/2, 7], [5, 21/2, 7::real]] ! (0 + 1) ! 1 =
     [[5, 3/2, 7], [5, 21/2, 7]] ! 0 ! 1
     + (1 * 1 / 1\<^sup>2) * ([[5, 3/2, 7], [5, 21/2, 7]] ! 0 ! (1 + 1)
          + [[5, 3/2, 7], [5, 21/2, 7]] ! 0 ! (1 - 1) - 2 * [[5, 3/2, 7], [5, 21/2, 7]] ! 0 ! 1)
     + 1 * (0 * [0, 3/2, 3] ! 1 * [0, 2] ! 0) \<and>
   [[5, 3/2, 7], [5, 21/2, 7::real]] ! (0 + 1) ! 0 = 5 \<and>
   [[5, 3/2, 7], [5, 21/2, 7::real]] ! (0 + 1) ! (nat 3 - 1) = 7"
proof -
  have s: "heat_solve 0 3 2 3 2 1 (\<lambda>t x. 0 * x * t) (\<lambda>x. x) 5 7 = Inr [[5, 3/2, 7], [5, 21/2, 7]]"
    by (simp add: heat_eval)
  have g: "create_grid 0 3 2 3 2 =
      Inr \<lparr>grid_dx = 1, grid_dt = 1, grid_x = [0, 3/2, 3], grid_t = [0, 2]\<rparr>"
    by (simp add: heat_eval)
  have h: "(2::int) \<le> 3" "(1::int) \<le> 2" "(0::real) \<noteq> 3" by simp_all
  from heat_update_formula [OF h, of 2 1 "\<lambda>t x. 0 * x * t" "\<lambda>x. x" 5 7]
  obtain g' u' where *: "create_grid 0 3 2 3 2 = Inr g'"
     "heat_solve 0 3 2 3 2 1 (\<lambda>t x. 0 * x * t) (\<lambda>x. x) 5 7 = Inr u'"
     "(\<forall>i j. int i \<le> 2 - 2 \<and> 1 \<le> j \<and> int j \<le> 3 - 2 \<longrightarrow>
        u' ! (i + 1) ! j =
          u' ! i ! j
          + (1 * grid_dt g' / (grid_dx g')\<^sup>2) * (u' ! i ! (j + 1) + u' ! i ! (j - 1) - 2 * u' ! i ! j)
          + grid_dt g' * (0 * (grid_x g' ! j) * (grid_t g' ! i)))"
     "(\<forall>i. int i \<le> 2 - 2 \<longrightarrow> u' ! (i + 1) ! 0 = 5 \<and> u' ! (i + 1) ! (nat 3 - 1) = 7)"
    by blast
  from *(1) g have g': "g' = \<lparr>grid_dx = 1, grid_dt = 1, grid_x = [0, 3/2, 3], grid_t = [0, 2]\<rparr>"
    by simp
  from *(2) s have u': "u' = [[5, 3/2, 7], [5, 21/2, 7]]" by simp
  have f: "int 0 \<le> 2 - 2 \<and> 1 \<le> (1::nat) \<and> int 1 \<le> 3 - 2" by simp
  from *(3) f have a: "u' ! (0 + 1) ! 1 =
          u' ! 0 ! 1
          + (1 * grid_dt g' / (grid_dx g')\<^sup>2) * (u' ! 0 ! (1 + 1) + u' ! 0 ! (1 - 1) - 2 * u' ! 0 ! 1)
          + grid_dt g' * (0 * (grid_x g' ! 1) * (grid_t g' ! 0))"
    by blast
  from *(4) have b: "u' ! (0 + 1) ! 0 = 5 \<and> u' ! (0 + 1) ! (nat 3 - 1) = 7" by simp
  show ?thesis using s g a b unfolding g' u' by simp
qed


subsection \<open>The corners of the initial row\<close>

text \<open>
  C9.  The column fills come after the row fill, so for every \<open>g_0\<close>, \<open>h_1\<close>, \<open>h_2\<close> the
  field returned on a grid with at least two spatial samples has \<open>u[0][0] = h_1\<close> and
  \<open>u[0][N_x - 1] = h_2\<close>; row 0 equals \<open>g_0\<close> at every interior index, and at a corner
  where \<open>g_0\<close> differs from the boundary value row 0 differs from \<open>g_0\<close>.
\<close>

theorem heat_corners:
  assumes "2 \<le> N_x" "1 \<le> N_t" "x_1 \<noteq> x_2"
  shows "\<exists>g u. create_grid x_1 x_2 t_f N_x N_t = Inr g \<and>
     heat_solve x_1 x_2 t_f N_x N_t a f g_0 h_1 h_2 = Inr u \<and>
     u ! 0 ! 0 = h_1 \<and> u ! 0 ! (nat N_x - 1) = h_2 \<and>
     (\<forall>j. 1 \<le> j \<and> int j \<le> N_x - 2 \<longrightarrow> u ! 0 ! j = g_0 (grid_x g ! j)) \<and>
     (g_0 (grid_x g ! 0) \<noteq> h_1 \<longrightarrow> u ! 0 ! 0 \<noteq> g_0 (grid_x g ! 0)) \<and>
     (g_0 (grid_x g ! (nat N_x - 1)) \<noteq> h_2 \<longrightarrow>
        u ! 0 ! (nat N_x - 1) \<noteq> g_0 (grid_x g ! (nat N_x - 1)))"
proof -
  from assms have "1 \<le> N_x" "x_1 \<noteq> x_2 \<or> N_t = 1" by simp_all
  from heat_solve_inv [OF this(1) assms(2) this(2), of t_f g_0 h_1 h_2 a f]
  obtain g u0 u where g: "create_grid x_1 x_2 t_f N_x N_t = Inr g"
    and u0: "\<forall>i<nat N_t. u0 ! i ! 0 = (if nat N_x = 1 then h_2 else h_1) \<and>
         u0 ! i ! (nat N_x - 1) = h_2"
    and u00: "\<forall>j. 1 \<le> j \<and> j < nat N_x - 1 \<longrightarrow> u0 ! 0 ! j = g_0 (grid_x g ! j)"
    and u: "heat_solve x_1 x_2 t_f N_x N_t a f g_0 h_1 h_2 = Inr u"
    and inv: "heat_inv a (grid_dt g) (grid_dx g) f (grid_t g) (grid_x g) (nat N_t) (nat N_x) u0
       (nat N_t - 1) u"
    by blast
  from assms have n: "nat N_x \<noteq> 1" "0 < nat N_t" by simp_all
  from inv have row0: "u ! 0 = u0 ! 0" by (simp add: heat_inv_def)
  have c: "u ! 0 ! 0 = h_1" "u ! 0 ! (nat N_x - 1) = h_2"
    using row0 u0 n by simp_all
  have m: "u ! 0 ! j = g_0 (grid_x g ! j)" if "1 \<le> j" "int j \<le> N_x - 2" for j
  proof -
    from that have "1 \<le> j \<and> j < nat N_x - 1" by linarith
    with u00 row0 show ?thesis by simp
  qed
  show ?thesis using g u c m by auto
qed

theorem heat_corners_witness:
  "heat_solve 0 3 2 3 2 1 (\<lambda>t x. 0 * x * t) (\<lambda>x. x + 1) 5 7 =
     Inr [[5, 5/2, 7], [5, 19/2, 7]] \<and>
   create_grid 0 3 2 3 2 = Inr \<lparr>grid_dx = 1, grid_dt = 1, grid_x = [0, 3/2, 3], grid_t = [0, 2]\<rparr> \<and>
   [[5, 5/2, 7], [5, 19/2, 7::real]] ! 0 ! 0 = 5 \<and>
   [[5, 5/2, 7], [5, 19/2, 7::real]] ! 0 ! (nat 3 - 1) = 7 \<and>
   [[5, 5/2, 7], [5, 19/2, 7::real]] ! 0 ! 1 = [0, 3/2, 3] ! 1 + 1 \<and>
   [0, 3/2, 3::real] ! 0 + 1 \<noteq> 5 \<and>
   [[5, 5/2, 7], [5, 19/2, 7::real]] ! 0 ! 0 \<noteq> [0, 3/2, 3] ! 0 + 1"
proof -
  have s: "heat_solve 0 3 2 3 2 1 (\<lambda>t x. 0 * x * t) (\<lambda>x. x + 1) 5 7 =
     Inr [[5, 5/2, 7], [5, 19/2, 7]]"
    by (simp add: heat_eval)
  have g: "create_grid 0 3 2 3 2 =
      Inr \<lparr>grid_dx = 1, grid_dt = 1, grid_x = [0, 3/2, 3], grid_t = [0, 2]\<rparr>"
    by (simp add: heat_eval)
  have h: "(2::int) \<le> 3" "(1::int) \<le> 2" "(0::real) \<noteq> 3" by simp_all
  from heat_corners [OF h, of 2 1 "\<lambda>t x. 0 * x * t" "\<lambda>x. x + 1" 5 7] s g
  show ?thesis by simp
qed


subsection \<open>The shipped heat scenario\<close>

lemma arctan_bounds_series:
  assumes "0 \<le> x" "x \<le> 1"
  shows "(\<Sum>i<2 * n. (- 1) ^ i * (1 / real (i * 2 + 1) * x ^ (i * 2 + 1))) \<le> arctan x"
    and "arctan x \<le> (\<Sum>i<2 * n + 1. (- 1) ^ i * (1 / real (i * 2 + 1) * x ^ (i * 2 + 1)))"
proof -
  have x: "\<bar>x\<bar> \<le> 1" using assms by simp
  let ?a = "\<lambda>n. 1 / real (n * 2 + 1) * x ^ (n * 2 + 1)"
  have z: "?a \<longlonglongrightarrow> 0" using zeroseq_arctan_series [OF x] .
  have nn: "0 \<le> ?a k" for k using assms by simp
  have mono: "?a (Suc k) \<le> ?a k" for k
    by (intro mult_mono power_decreasing frac_le) (use assms in simp_all)
  show "(\<Sum>i<2 * n. (- 1) ^ i * ?a i) \<le> arctan x"
    unfolding arctan_series [OF x]
    using summable_Leibniz'(2) [of ?a, OF z nn mono] by simp
  show "arctan x \<le> (\<Sum>i<2 * n + 1. (- 1) ^ i * ?a i)"
    unfolding arctan_series [OF x]
    using summable_Leibniz'(4) [of ?a, OF z nn mono] by simp
qed

text \<open>
  \<^verbatim>\<open>np.pi\<close> lies below \<open>\<pi>\<close>: by Machin's formula and the alternating series of the arc
  tangent, twelve terms at \<open>1/5\<close> and three at \<open>1/239\<close> bound \<open>\<pi>\<close> from below closely enough.
\<close>

lemma np_pi_less_pi: "np_pi < pi"
proof -
  have l: "(\<Sum>i<2 * 6. (- 1) ^ i * (1 / real (i * 2 + 1) * (1 / 5) ^ (i * 2 + 1)))
      \<le> arctan (1 / 5)"
    by (rule arctan_bounds_series(1)) simp_all
  have u: "arctan (1 / 239)
      \<le> (\<Sum>i<2 * 1 + 1. (- 1) ^ i * (1 / real (i * 2 + 1) * (1 / 239) ^ (i * 2 + 1)))"
    by (rule arctan_bounds_series(2)) simp_all
  have p: "pi = 16 * arctan (1 / 5) - 4 * arctan (1 / 239)"
    using machin by simp
  have "np_pi < 16 * (\<Sum>i<2 * 6. (- 1) ^ i * (1 / real (i * 2 + 1) * (1 / 5) ^ (i * 2 + 1)))
      - 4 * (\<Sum>i<2 * 1 + 1. (- 1) ^ i * (1 / real (i * 2 + 1) * (1 / 239) ^ (i * 2 + 1)))"
    by (simp add: np_pi_def lessThan_Suc eval_nat_numeral)
  also have "\<dots> \<le> pi" unfolding p using l u by simp
  finally show ?thesis .
qed

lemma sin_np_pi_pos: "0 < sin np_pi"
  by (rule sin_gt_zero [OF _ np_pi_less_pi]) (simp add: np_pi_def)

lemma g_0_end_points:
  "sin (2 * np_pi * (-3) / (3 - (-3))) < 0" "0 < sin (2 * np_pi * 3 / (3 - (-3)))"
proof -
  have a: "2 * np_pi * (-3) / (3 - (-3)) = - np_pi" "2 * np_pi * 3 / (3 - (-3)) = np_pi"
    by simp_all
  show "sin (2 * np_pi * (-3) / (3 - (-3))) < 0" "0 < sin (2 * np_pi * 3 / (3 - (-3)))"
    unfolding a using sin_np_pi_pos by simp_all
qed

lemma heat_scenario_field:
  "\<exists>g u. create_grid (-3) 3 20 21 100 = Inr g \<and>
     heat_solve (-3) 3 20 21 100 (1/10) (\<lambda>t x. 0 * x * t)
        (\<lambda>x. sin (2 * np_pi * x / (3 - (-3)))) 0 0 = Inr u \<and>
     linspace (-3) 3 21 = Inr (grid_x g) \<and>
     length u = 100 \<and> (\<forall>i<100. length (u ! i) = 21) \<and> length (grid_x g) = 21 \<and>
     grid_x g ! 0 = -3 \<and> grid_x g ! 20 = 3 \<and>
     (\<forall>j. 1 \<le> j \<and> j \<le> 19 \<longrightarrow> u ! 0 ! j = sin (2 * np_pi * (grid_x g ! j) / (3 - (-3)))) \<and>
     (\<forall>i<100. u ! i ! 0 = 0 \<and> u ! i ! 20 = 0)"
proof -
  let ?g0 = "\<lambda>x::real. sin (2 * np_pi * x / (3 - (-3)))"
  have h: "(1::int) \<le> 21" "(1::int) \<le> 100" "(-3::real) \<noteq> 3 \<or> (100::int) = 1" by simp_all
  from heat_solve_inv [OF h, of 20 ?g0 0 0 "1/10" "\<lambda>t x. 0 * x * t"]
  obtain g u0 u where g: "create_grid (-3) 3 20 21 100 = Inr g"
    and x: "linspace (-3) 3 21 = Inr (grid_x g)" and lx: "length (grid_x g) = nat 21"
    and u0: "\<forall>i<nat 100. u0 ! i ! 0 = (if nat 21 = 1 then 0 else 0) \<and>
         u0 ! i ! (nat 21 - 1) = (0::real)"
    and u00: "\<forall>j. 1 \<le> j \<and> j < nat 21 - 1 \<longrightarrow> u0 ! 0 ! j = ?g0 (grid_x g ! j)"
    and u: "heat_solve (-3) 3 20 21 100 (1/10) (\<lambda>t x. 0 * x * t) ?g0 0 0 = Inr u"
    and inv: "heat_inv (1/10) (grid_dt g) (grid_dx g) (\<lambda>t x. 0 * x * t) (grid_t g) (grid_x g)
       (nat 100) (nat 21) u0 (nat 100 - 1) u"
    by blast
  from inv have shape: "length u = 100" "\<forall>i<100. length (u ! i) = 21"
    and edge: "\<forall>i<100. u ! i ! 0 = u0 ! i ! 0 \<and> u ! i ! 20 = u0 ! i ! 20"
    and row0: "u ! 0 = u0 ! 0"
    by (simp_all add: heat_inv_def)
  have cols: "\<forall>i<100. u ! i ! 0 = 0 \<and> u ! i ! 20 = 0"
    using edge u0 by simp
  have x0: "grid_x g ! 0 = -3" using linspace_nth [OF _ _ x, of 0] by simp
  have x20: "grid_x g ! 20 = 3" using linspace_nth [OF _ _ x, of 20] by simp
  have r0: "\<forall>j. 1 \<le> j \<and> j \<le> 19 \<longrightarrow> u ! 0 ! j = ?g0 (grid_x g ! j)"
    using u00 row0 by simp
  have lx': "length (grid_x g) = 21" using lx by simp
  show ?thesis
    by (rule exI [of _ g], rule exI [of _ u]) (intro conjI g u x shape lx' x0 x20 r0 cols)
qed

text \<open>
  C8 (amended).  The notebook's heat example (\<open>x\<close> in \<open>[-3, 3]\<close>, \<open>a = 0.1\<close>, \<open>N_x = 21\<close>,
  \<open>N_t = 100\<close>, \<open>t_f = 20\<close>, \<open>h_1 = h_2 = 0\<close>, \<open>g_0(x) = sin(2 np.pi x / 6)\<close>, zero source) returns
  a field of 100 rows of 21 entries whose first and last columns are 0 at every time index,
  row 0 included, and whose row 0 equals \<open>g_0\<close> at the interior coordinates \<open>x[1], ..., x[19]\<close>.
  At the end points \<open>x[0] = -3\<close> and \<open>x[20] = 3\<close> row 0 holds the boundary value 0 and not
  \<open>g_0\<close>, which is negative at \<open>x[0]\<close> and positive at \<open>x[20]\<close> because \<^verbatim>\<open>np.pi\<close> lies below \<open>\<pi>\<close>.
\<close>

theorem heat_scenario:
  "\<exists>g u. create_grid (-3) 3 20 21 100 = Inr g \<and>
     heat_solve (-3) 3 20 21 100 (1/10) (\<lambda>t x. 0 * x * t)
        (\<lambda>x. sin (2 * np_pi * x / (3 - (-3)))) 0 0 = Inr u \<and>
     length u = 100 \<and> (\<forall>i<100. length (u ! i) = 21) \<and> length (grid_x g) = 21 \<and>
     (\<forall>i<100. u ! i ! 0 = 0 \<and> u ! i ! 20 = 0) \<and>
     (\<forall>j. 1 \<le> j \<and> j \<le> 19 \<longrightarrow> u ! 0 ! j = sin (2 * np_pi * (grid_x g ! j) / (3 - (-3)))) \<and>
     grid_x g ! 0 = -3 \<and> grid_x g ! 20 = 3 \<and>
     sin (2 * np_pi * (grid_x g ! 0) / (3 - (-3))) < 0 \<and>
     0 < sin (2 * np_pi * (grid_x g ! 20) / (3 - (-3)))"
proof -
  from heat_scenario_field obtain g u where
    f: "create_grid (-3) 3 20 21 100 = Inr g"
      "heat_solve (-3) 3 20 21 100 (1/10) (\<lambda>t x. 0 * x * t)
        (\<lambda>x. sin (2 * np_pi * x / (3 - (-3)))) 0 0 = Inr u"
      "length u = 100" "\<forall>i<100. length (u ! i) = 21" "length (grid_x g) = 21"
      "\<forall>i<100. u ! i ! 0 = 0 \<and> u ! i ! 20 = 0"
      "\<forall>j. 1 \<le> j \<and> j \<le> 19 \<longrightarrow> u ! 0 ! j = sin (2 * np_pi * (grid_x g ! j) / (3 - (-3)))"
    and x: "grid_x g ! 0 = -3" "grid_x g ! 20 = 3"
    by blast
  have s: "sin (2 * np_pi * (grid_x g ! 0) / (3 - (-3))) < 0"
    "0 < sin (2 * np_pi * (grid_x g ! 20) / (3 - (-3)))"
    unfolding x by (rule g_0_end_points)+
  show ?thesis
    by (rule exI [of _ g], rule exI [of _ u]) (intro conjI f x s)
qed

theorem heat_scenario_witness:
  "\<exists>g u. create_grid (-3) 3 20 21 100 = Inr g \<and>
     heat_solve (-3) 3 20 21 100 (1/10) (\<lambda>t x. 0 * x * t)
        (\<lambda>x. sin (2 * np_pi * x / (3 - (-3)))) 0 0 = Inr u \<and>
     length (u ! 99) = 21 \<and>
     u ! 0 ! 1 = sin (2 * np_pi * (grid_x g ! 1) / (3 - (-3))) \<and>
     u ! 0 ! 5 = sin (2 * np_pi * (grid_x g ! 5) / (3 - (-3))) \<and>
     u ! 0 ! 19 = sin (2 * np_pi * (grid_x g ! 19) / (3 - (-3))) \<and>
     u ! 0 ! 0 = 0 \<and> u ! 0 ! 20 = 0 \<and> u ! 99 ! 0 = 0 \<and> u ! 99 ! 20 = 0"
proof -
  have b: "(0::nat) < 100" "(99::nat) < 100"
    "(1::nat) \<le> 1 \<and> (1::nat) \<le> 19" "(1::nat) \<le> 5 \<and> (5::nat) \<le> 19"
    "(1::nat) \<le> 19 \<and> (19::nat) \<le> 19"
    by simp_all
  from heat_scenario b show ?thesis by blast
qed

text \<open>
  C8 (as stated) fails at the two corners of row 0: the field holds 0 at \<open>(0, 0)\<close> and at
  \<open>(0, 20)\<close>, while \<open>g_0\<close> at the end points \<open>x[0] = -3\<close> and \<open>x[20] = 3\<close> is not 0.
\<close>

theorem heat_scenario_corners_not_g_0:
  "\<not> isl (linspace (-3) 3 21) \<and>
   projr (linspace (-3) 3 21) ! 0 = -3 \<and> projr (linspace (-3) 3 21) ! 20 = 3 \<and>
   \<not> isl (heat_solve (-3) 3 20 21 100 (1/10) (\<lambda>t x. 0 * x * t)
        (\<lambda>x. sin (2 * np_pi * x / (3 - (-3)))) 0 0) \<and>
   projr (heat_solve (-3) 3 20 21 100 (1/10) (\<lambda>t x. 0 * x * t)
        (\<lambda>x. sin (2 * np_pi * x / (3 - (-3)))) 0 0) ! 0 ! 0
     \<noteq> sin (2 * np_pi * (projr (linspace (-3) 3 21) ! 0) / (3 - (-3))) \<and>
   projr (heat_solve (-3) 3 20 21 100 (1/10) (\<lambda>t x. 0 * x * t)
        (\<lambda>x. sin (2 * np_pi * x / (3 - (-3)))) 0 0) ! 0 ! 20
     \<noteq> sin (2 * np_pi * (projr (linspace (-3) 3 21) ! 20) / (3 - (-3)))"
proof -
  from heat_scenario_field obtain g u where
    g: "create_grid (-3) 3 20 21 100 = Inr g"
    and u: "heat_solve (-3) 3 20 21 100 (1/10) (\<lambda>t x. 0 * x * t)
        (\<lambda>x. sin (2 * np_pi * x / (3 - (-3)))) 0 0 = Inr u"
    and l: "linspace (-3) 3 21 = Inr (grid_x g)"
    and c: "\<forall>i<100. u ! i ! 0 = 0 \<and> u ! i ! 20 = 0"
    and x: "grid_x g ! 0 = -3" "grid_x g ! 20 = 3"
    by blast
  from c have z: "u ! 0 ! 0 = 0" "u ! 0 ! 20 = 0" by simp_all
  have n: "u ! 0 ! 0 \<noteq> sin (2 * np_pi * (grid_x g ! 0) / (3 - (-3)))"
    "u ! 0 ! 20 \<noteq> sin (2 * np_pi * (grid_x g ! 20) / (3 - (-3)))"
    unfolding x z using g_0_end_points by simp_all
  show ?thesis
    unfolding u l sum.sel sum.disc by (intro conjI x n) simp_all
qed

section \<open>Properties of the CTCS wave assembly\<close>

subsection \<open>Element access and the stencil\<close>

lemma bind_err_Inr [simp]: "bind_err (Inr v) k = k v"
  by (simp add: bind_err_def)

lemma bind_err_Inl [simp]: "bind_err (Inl e) k = Inl e"
  by (simp add: bind_err_def)

lemma py_index_nat: "k < n \<Longrightarrow> py_index n (int k) = Inr k"
  by (simp add: py_index_def)

lemma py_index_last: "0 < n \<Longrightarrow> py_index n (- 1) = Inr (n - 1)"
  by (auto simp: py_index_def nat_diff_distrib)

lemma length_zeros [simp]: "length (zeros n m) = n"
  by (simp add: zeros_def)

lemma length_zeros_row [simp]: "p < n \<Longrightarrow> length (zeros n m ! p) = m"
  by (simp add: zeros_def)

lemma zeros_nth [simp]: "p < n \<Longrightarrow> q < m \<Longrightarrow> zeros n m ! p ! q = 0"
  by (simp add: zeros_def)

lemma length_upd [simp]: "length (upd mat i j v) = length mat"
  by (simp add: upd_def)

lemma length_upd_row [simp]: "length (upd mat i j v ! p) = length (mat ! p)"
  by (cases "i < length mat") (simp_all add: upd_def nth_list_update list_update_beyond)

lemma length_inc [simp]: "length (inc mat i j v) = length mat"
  by (simp add: inc_def)

lemma length_inc_row [simp]: "length (inc mat i j v ! p) = length (mat ! p)"
  by (simp add: inc_def)

lemma upd_nth:
  "i < length mat \<Longrightarrow> j < length (mat ! i) \<Longrightarrow>
   upd mat i j v ! p ! q = (if p = i \<and> q = j then v else mat ! p ! q)"
  by (auto simp: upd_def nth_list_update)

lemma inc_nth:
  "i < length mat \<Longrightarrow> j < length (mat ! i) \<Longrightarrow>
   inc mat i j v ! p ! q = mat ! p ! q + (if p = i \<and> q = j then v else 0)"
  by (simp add: inc_def upd_nth)

lemma shape_zeros: "shape n m (zeros n m)"
  by (simp add: shape_def)

lemma shape_upd: "shape n m mat \<Longrightarrow> shape n m (upd mat i j v)"
  by (simp add: shape_def)

lemma shape_inc: "shape n m mat \<Longrightarrow> shape n m (inc mat i j v)"
  by (simp add: shape_def)

lemma set_at_nat:
  "i < length mat \<Longrightarrow> j < length (mat ! i) \<Longrightarrow>
   set_at mat (int i) (int j) v = Inr (upd mat i j v)"
  by (simp add: set_at_def py_index_nat upd_def)

lemma set_at_last:
  "i < length mat \<Longrightarrow> 0 < length (mat ! i) \<Longrightarrow>
   set_at mat (int i) (- 1) v = Inr (upd mat i (length (mat ! i) - 1) v)"
  by (simp add: set_at_def py_index_nat py_index_last upd_def)

lemma add_at_nat:
  "i < length mat \<Longrightarrow> j < length (mat ! i) \<Longrightarrow>
   add_at mat (int i) (int j) (Inr v) = Inr (inc mat i j v)"
  by (simp add: add_at_def py_index_nat upd_def inc_def)

lemma py_div_Inr: "b \<noteq> 0 \<Longrightarrow> py_div a b = Inr (a / b)"
  by (simp add: py_div_def)

lemma rhs_quot: "d \<noteq> 0 \<Longrightarrow> bind_err (py_div a d) (\<lambda>q. py_div q d) = Inr (a / d / d)"
  by (simp add: py_div_def bind_err_def)

lemma rhs_quot_twice:
  "d \<noteq> 0 \<Longrightarrow>
   bind_err (py_div a d) (\<lambda>q. bind_err (py_div q d) (\<lambda>q. Inr (q * 2))) = Inr ((a / d / d) * 2)"
  by (simp add: py_div_def bind_err_def)

lemma rhs_quot_minus:
  "d \<noteq> 0 \<Longrightarrow>
   bind_err (py_div a d) (\<lambda>q. bind_err (py_div q d) (\<lambda>q. Inr (- q))) = Inr (- (a / d / d))"
  by (simp add: py_div_def bind_err_def)

lemma stencil_Inr:
  assumes "1 \<le> i" "i + 1 < N_t" "1 \<le> j" "j + 1 < N_x" "dt \<noteq> 0" "dx \<noteq> 0"
  shows "stencil dt dx c N_t N_x i j = Inr (stencil_mat dt dx c N_t N_x i j)"
proof -
  have i1: "int i - 1 = int (i - 1)" "int i + 1 = int (i + 1)"
    and j1: "int j - 1 = int (j - 1)" "int j + 1 = int (j + 1)"
    using assms by simp_all
  have r: "i < N_t" "i - 1 < N_t" "j < N_x" "j - 1 < N_x" using assms by simp_all
  let ?Z = "zeros N_t N_x"
  have a1: "add_at ?Z (int i) (int j) (Inr v1) = Inr (inc ?Z i j v1)" for v1
    using r by (intro add_at_nat) simp_all
  have a2: "add_at (inc ?Z i j v1) (int (i - 1)) (int j) (Inr v2) =
      Inr (inc (inc ?Z i j v1) (i - 1) j v2)"
    for v1 v2
    using r by (intro add_at_nat) simp_all
  have a3: "add_at (inc (inc ?Z i j v1) (i - 1) j v2) (int (i + 1)) (int j) (Inr v3) =
      Inr (inc (inc (inc ?Z i j v1) (i - 1) j v2) (i + 1) j v3)" for v1 v2 v3
    using r assms by (intro add_at_nat) simp_all
  have a4: "add_at (inc (inc (inc ?Z i j v1) (i - 1) j v2) (i + 1) j v3) (int i) (int j) (Inr v4) =
      Inr (inc (inc (inc (inc ?Z i j v1) (i - 1) j v2) (i + 1) j v3) i j v4)" for v1 v2 v3 v4
    using r by (intro add_at_nat) simp_all
  have a5: "add_at (inc (inc (inc (inc ?Z i j v1) (i - 1) j v2) (i + 1) j v3) i j v4)
        (int i) (int (j + 1)) (Inr v5) =
      Inr (inc (inc (inc (inc (inc ?Z i j v1) (i - 1) j v2) (i + 1) j v3) i j v4) i (j + 1) v5)"
    for v1 v2 v3 v4 v5
    using r assms by (intro add_at_nat) simp_all
  have a6: "add_at
        (inc (inc (inc (inc (inc ?Z i j v1) (i - 1) j v2) (i + 1) j v3) i j v4) i (j + 1) v5)
        (int i) (int (j - 1)) (Inr v6) =
      Inr (inc
        (inc (inc (inc (inc (inc ?Z i j v1) (i - 1) j v2) (i + 1) j v3) i j v4) i (j + 1) v5)
        i (j - 1) v6)"
    for v1 v2 v3 v4 v5 v6
    using r by (intro add_at_nat) simp_all
  show ?thesis
    unfolding stencil_def stencil_mat_def i1 j1
    by (simp only: rhs_quot [OF assms(5)] rhs_quot_twice [OF assms(6)]
        rhs_quot_minus [OF assms(6)] a1 a2 a3 a4 a5 a6 bind_err_Inr)
qed

lemma shape_stencil_mat: "shape N_t N_x (stencil_mat dt dx c N_t N_x i j)"
  unfolding stencil_mat_def by (intro shape_inc shape_zeros)

lemma stencil_mat_nth_sum:
  assumes "1 \<le> i" "i + 1 < N_t" "1 \<le> j" "j + 1 < N_x" "p < N_t" "q < N_x"
  shows "stencil_mat dt dx c N_t N_x i j ! p ! q =
     (if p = i \<and> q = j then - 2 / dt / dt else 0) +
     (if p = i - 1 \<and> q = j then 1 / dt / dt else 0) +
     (if p = i + 1 \<and> q = j then 1 / dt / dt else 0) +
     (if p = i \<and> q = j then (c * c / dx / dx) * 2 else 0) +
     (if p = i \<and> q = j + 1 then - (c * c / dx / dx) else 0) +
     (if p = i \<and> q = j - 1 then - (c * c / dx / dx) else 0)"
proof -
  have b: "i < N_t" "i - 1 < N_t" "j < N_x" "j - 1 < N_x" using assms by simp_all
  have nth: "inc mat a b' v ! p ! q = mat ! p ! q + (if p = a \<and> q = b' then v else 0)"
    if "shape N_t N_x mat" "a < N_t" "b' < N_x" for mat a b' v
    using that by (intro inc_nth) (simp_all add: shape_def)
  note sh = shape_zeros [of N_t N_x]
  note s1 = shape_inc [OF sh, of i j]
  note s2 = shape_inc [OF s1, of _ "i - 1" j]
  note s3 = shape_inc [OF s2, of _ _ "i + 1" j]
  note s4 = shape_inc [OF s3, of _ _ _ i j]
  note s5 = shape_inc [OF s4, of _ _ _ _ i "j + 1"]
  have z: "zeros N_t N_x ! p ! q = 0" using assms by simp
  show ?thesis
    unfolding stencil_mat_def
    by (simp only: nth [OF sh b(1,3)] nth [OF s1 b(2,3)] nth [OF s2 assms(2) b(3)]
        nth [OF s3 b(1,3)] nth [OF s4 b(1) assms(4)] nth [OF s5 b(1,4)] z add_0)
qed

lemma stencil_mat_nth:
  assumes "1 \<le> i" "i + 1 < N_t" "1 \<le> j" "j + 1 < N_x" "p < N_t" "q < N_x"
  shows "stencil_mat dt dx c N_t N_x i j ! p ! q =
     (if p = i \<and> q = j then - 2 / dt / dt + (c * c / dx / dx) * 2
      else if (p = i - 1 \<or> p = i + 1) \<and> q = j then 1 / dt / dt
      else if p = i \<and> (q = j + 1 \<or> q = j - 1) then - (c * c / dx / dx)
      else 0)"
proof -
  note e = stencil_mat_nth_sum [OF assms, of dt dx c]
  have ne: "i - 1 \<noteq> i" "i \<noteq> i - 1" "i + 1 \<noteq> i - 1" "i - 1 \<noteq> i + 1"
    "j - 1 \<noteq> j" "j \<noteq> j - 1" "j + 1 \<noteq> j - 1" "j - 1 \<noteq> j + 1"
    "i + 1 \<noteq> i" "i \<noteq> i + 1" "j + 1 \<noteq> j" "j \<noteq> j + 1"
    using assms(1,3) by linarith+
  consider (c) "p = i \<and> q = j"
    | (t1) "p = i - 1 \<and> q = j" | (t2) "p = i + 1 \<and> q = j"
    | (x1) "p = i \<and> q = j + 1" | (x2) "p = i \<and> q = j - 1"
    | (o) "\<not> (p = i \<and> q = j)" "\<not> (p = i - 1 \<and> q = j)" "\<not> (p = i + 1 \<and> q = j)"
          "\<not> (p = i \<and> q = j + 1)" "\<not> (p = i \<and> q = j - 1)"
    by blast
  then show ?thesis
  proof cases
    case c
    then have v: "p = i" "q = j" by simp_all
    show ?thesis
      by (simp only: e, simp only: v ne simp_thms if_True if_False add_0 add_0_right)
  next
    case t1
    then have v: "p = i - 1" "q = j" by simp_all
    show ?thesis
      by (simp only: e, simp only: v ne simp_thms if_True if_False add_0 add_0_right)
  next
    case t2
    then have v: "p = i + 1" "q = j" by simp_all
    show ?thesis
      by (simp only: e, simp only: v ne simp_thms if_True if_False add_0 add_0_right)
  next
    case x1
    then have v: "p = i" "q = j + 1" by simp_all
    show ?thesis
      by (simp only: e, simp only: v ne simp_thms if_True if_False add_0 add_0_right)
  next
    case x2
    then have v: "p = i" "q = j - 1" by simp_all
    show ?thesis
      by (simp only: e, simp only: v ne simp_thms if_True if_False add_0 add_0_right)
  next
    case o
    have n2: "\<not> ((p = i - 1 \<or> p = i + 1) \<and> q = j)" using o by blast
    have n3: "\<not> (p = i \<and> (q = j + 1 \<or> q = j - 1))" using o by blast
    show ?thesis unfolding e by (simp only: o n2 n3 if_False add_0)
  qed
qed

subsection \<open>The loops of the assembly\<close>

lemma for_range_blocks:
  assumes "\<And>k s. k \<in> set ks \<Longrightarrow> body k s = Inr (fst s @ M k, snd s @ R k)"
  shows "for_range ks body s = Inr (fst s @ concat (map M ks), snd s @ concat (map R ks))"
  using assms by (induction ks arbitrary: s) simp_all

lemma for_range_append:
  assumes "\<And>k s. k \<in> set ks \<Longrightarrow> body k s = Inr (append_eq s (m k) (r k))"
  shows "for_range ks body s = Inr (fst s @ map m ks, snd s @ map r ks)"
proof -
  have "for_range ks body s =
      Inr (fst s @ concat (map (\<lambda>k. [m k]) ks), snd s @ concat (map (\<lambda>k. [r k]) ks))"
    by (rule for_range_blocks) (simp add: assms append_eq_def)
  moreover have "concat (map (\<lambda>k. [g k]) ks) = map g ks" for g :: "nat \<Rightarrow> 'b"
    by (induction ks) simp_all
  ultimately show ?thesis by simp
qed

lemma pde_loop_Inr:
  assumes "dt \<noteq> 0" "dx \<noteq> 0"
  shows "pde_loop dt dx c f t x N_t N_x s =
     Inr (fst s @ map (\<lambda>(i, j). stencil_mat dt dx c N_t N_x i j) (pde_indices N_t N_x),
          snd s @ map (\<lambda>(i, j). f (t ! i) (x ! j)) (pde_indices N_t N_x))"
proof -
  have inner: "for_range [1..<N_x - 1] (\<lambda>j. pde_body dt dx c f t x N_t N_x i j) s' =
      Inr (fst s' @ map (\<lambda>j. stencil_mat dt dx c N_t N_x i j) [1..<N_x - 1],
           snd s' @ map (\<lambda>j. f (t ! i) (x ! j)) [1..<N_x - 1])"
    if "i \<in> set [1..<N_t - 1]" for i s'
  proof (rule for_range_append)
    fix j s'' assume "j \<in> set [1..<N_x - 1]"
    with that have "1 \<le> i" "i + 1 < N_t" "1 \<le> j" "j + 1 < N_x" by auto
    from stencil_Inr [OF this assms]
    show "pde_body dt dx c f t x N_t N_x i j s'' =
        Inr (append_eq s'' (stencil_mat dt dx c N_t N_x i j) (f (t ! i) (x ! j)))"
      by (simp add: pde_body_def)
  qed
  have "pde_loop dt dx c f t x N_t N_x s =
      Inr (fst s @ concat (map (\<lambda>i. map (\<lambda>j. stencil_mat dt dx c N_t N_x i j) [1..<N_x - 1])
                            [1..<N_t - 1]),
           snd s @ concat (map (\<lambda>i. map (\<lambda>j. f (t ! i) (x ! j)) [1..<N_x - 1]) [1..<N_t - 1]))"
    unfolding pde_loop_def by (rule for_range_blocks) (rule inner)
  then show ?thesis
    by (simp add: pde_indices_def map_concat comp_def)
qed

lemma ivp_dirichlet_loop_Inr:
  assumes "1 \<le> N_t"
  shows "ivp_dirichlet_loop x N_t N_x g_0 s =
     Inr (fst s @ map (\<lambda>j. unit_mat N_t N_x 0 j) [0..<N_x],
          snd s @ map (\<lambda>j. g_0 (x ! j)) [0..<N_x])"
  unfolding ivp_dirichlet_loop_def
proof (rule for_range_append)
  fix j s' assume "j \<in> set [0..<N_x]"
  then have "set_at (zeros N_t N_x) (int 0) (int j) 1 = Inr (upd (zeros N_t N_x) 0 j 1)"
    using assms by (intro set_at_nat) simp_all
  then show "bind_err (set_at (zeros N_t N_x) 0 (int j) 1)
        (\<lambda>mat. Inr (append_eq s' mat (g_0 (x ! j)))) =
      Inr (append_eq s' (unit_mat N_t N_x 0 j) (g_0 (x ! j)))"
    by (simp add: unit_mat_def)
qed

lemma ivp_neumann_loop_Inr:
  assumes "2 \<le> N_t"
  shows "ivp_neumann_loop x N_t N_x g_1 s =
     Inr (fst s @ map (\<lambda>j. neumann_mat N_t N_x j) [1..<N_x - 1],
          snd s @ map (\<lambda>j. g_1 (x ! j)) [1..<N_x - 1])"
  unfolding ivp_neumann_loop_def
proof (rule for_range_append)
  fix j s' assume "j \<in> set [1..<N_x - 1]"
  then have j: "j < N_x" by auto
  have a: "set_at (zeros N_t N_x) (int 1) (int j) 1 = Inr (upd (zeros N_t N_x) 1 j 1)"
    using assms j by (intro set_at_nat) simp_all
  have b: "set_at (upd (zeros N_t N_x) 1 j 1) (int 0) (int j) (- 1) =
      Inr (upd (upd (zeros N_t N_x) 1 j 1) 0 j (- 1))"
    using assms j by (intro set_at_nat) simp_all
  from a b show "bind_err (set_at (zeros N_t N_x) (0 + 1) (int j) 1)
        (\<lambda>mat. bind_err (set_at mat 0 (int j) (- 1))
           (\<lambda>mat. Inr (append_eq s' mat (g_1 (x ! j))))) =
      Inr (append_eq s' (neumann_mat N_t N_x j) (g_1 (x ! j)))"
    by (simp add: neumann_mat_def)
qed

lemma space_bounds_loops_Inr:
  assumes "1 \<le> N_x"
  shows "space_bounds_loops N_t N_x h_1 h_2 s =
     Inr (fst s @ map (\<lambda>i. unit_mat N_t N_x i 0) [1..<N_t]
                @ map (\<lambda>i. unit_mat N_t N_x i (N_x - 1)) [1..<N_t],
          snd s @ map (\<lambda>i. h_1) [1..<N_t] @ map (\<lambda>i. h_2) [1..<N_t])"
proof -
  have lo: "for_range [1..<N_t] (\<lambda>i s.
          bind_err (set_at (zeros N_t N_x) (int i) 0 1) (\<lambda>mat.
            Inr (append_eq s mat h_1))) s' =
      Inr (fst s' @ map (\<lambda>i. unit_mat N_t N_x i 0) [1..<N_t], snd s' @ map (\<lambda>i. h_1) [1..<N_t])"
    for s'
  proof (rule for_range_append)
    fix i s'' assume "i \<in> set [1..<N_t]"
    then have "set_at (zeros N_t N_x) (int i) (int 0) 1 = Inr (upd (zeros N_t N_x) i 0 1)"
      using assms by (intro set_at_nat) simp_all
    then show "bind_err (set_at (zeros N_t N_x) (int i) 0 1)
          (\<lambda>mat. Inr (append_eq s'' mat h_1)) =
        Inr (append_eq s'' (unit_mat N_t N_x i 0) h_1)"
      by (simp add: unit_mat_def)
  qed
  have hi: "for_range [1..<N_t] (\<lambda>i s.
          bind_err (set_at (zeros N_t N_x) (int i) (- 1) 1) (\<lambda>mat.
            Inr (append_eq s mat h_2))) s' =
      Inr (fst s' @ map (\<lambda>i. unit_mat N_t N_x i (N_x - 1)) [1..<N_t],
           snd s' @ map (\<lambda>i. h_2) [1..<N_t])"
    for s'
  proof (rule for_range_append)
    fix i s'' assume i: "i \<in> set [1..<N_t]"
    have "set_at (zeros N_t N_x) (int i) (- 1) 1 =
        Inr (upd (zeros N_t N_x) i (length (zeros N_t N_x ! i) - 1) 1)"
      using assms i by (intro set_at_last) simp_all
    moreover have "length (zeros N_t N_x ! i) = N_x" using i by simp
    ultimately show "bind_err (set_at (zeros N_t N_x) (int i) (- 1) 1)
          (\<lambda>mat. Inr (append_eq s'' mat h_2)) =
        Inr (append_eq s'' (unit_mat N_t N_x i (N_x - 1)) h_2)"
      by (simp add: unit_mat_def)
  qed
  show ?thesis
    unfolding space_bounds_loops_def
    by (simp only: lo hi bind_err_Inr fst_conv snd_conv append_assoc)
qed

lemma wave_system_Inr:
  assumes "2 \<le> N_t" "1 \<le> N_x" "dt \<noteq> 0" "dx \<noteq> 0"
  shows "wave_system dt dx x t N_t N_x c f g_0 g_1 h_1 h_2 =
     Inr (wave_eqs dt dx c N_t N_x, wave_col f t x g_0 g_1 h_1 h_2 N_t N_x)"
proof -
  from assms(1) have n1: "1 \<le> N_t" by simp
  show ?thesis
    unfolding wave_system_def
    by (simp add: pde_loop_Inr [OF assms(3,4)] ivp_dirichlet_loop_Inr [OF n1]
        ivp_neumann_loop_Inr [OF assms(1)] space_bounds_loops_Inr [OF assms(2)]
        wave_eqs_def wave_col_def)
qed

lemma wave_assemble_Inr:
  assumes "2 \<le> N_t" "1 \<le> N_x" "t_f \<noteq> 0" "x_1 \<noteq> x_2"
  shows "\<exists>g. create_grid x_1 x_2 t_f N_x N_t = Inr g \<and>
     grid_dx g = (x_2 - x_1) / real_of_int N_x \<and> grid_dt g = t_f / real_of_int N_t \<and>
     linspace x_1 x_2 N_x = Inr (grid_x g) \<and> linspace 0 t_f N_t = Inr (grid_t g) \<and>
     wave_assemble x_1 x_2 t_f N_x N_t c f g_0 g_1 h_1 h_2 =
       Inr (wave_eqs (grid_dt g) (grid_dx g) c (nat N_t) (nat N_x),
            wave_col f (grid_t g) (grid_x g) g_0 g_1 h_1 h_2 (nat N_t) (nat N_x))"
proof -
  from assms have pos: "0 < N_x" "0 < N_t" by simp_all
  obtain x t where x: "linspace x_1 x_2 N_x = Inr x" and t: "linspace 0 t_f N_t = Inr t"
    and g: "create_grid x_1 x_2 t_f N_x N_t =
             Inr \<lparr>grid_dx = (x_2 - x_1) / real_of_int N_x, grid_dt = t_f / real_of_int N_t,
                  grid_x = x, grid_t = t\<rparr>"
    using create_grid_Inr [OF pos, of x_1 x_2 t_f] by blast
  have nz: "t_f / real_of_int N_t \<noteq> 0" "(x_2 - x_1) / real_of_int N_x \<noteq> 0"
    using assms pos by simp_all
  have n: "2 \<le> nat N_t" "1 \<le> nat N_x" using assms by simp_all
  show ?thesis
    using g x t by (simp add: wave_assemble_def wave_system_Inr [OF n nz])
qed


subsection \<open>Index sets of the assembly\<close>

lemma set_pde_indices: "set (pde_indices N_t N_x) = {1..<N_t - 1} \<times> {1..<N_x - 1}"
  by (auto simp: pde_indices_def)

lemma length_concat_map_map:
  "length (concat (map (\<lambda>i. map (g i) js) is)) = length is * length js"
  by (induction "is") simp_all

lemma length_pde_indices: "length (pde_indices N_t N_x) = (N_t - 2) * (N_x - 2)"
  by (simp add: pde_indices_def length_concat_map_map numeral_2_eq_2)

lemma pde_indices_nth:
  assumes "k < length (pde_indices N_t N_x)"
  shows "1 \<le> fst (pde_indices N_t N_x ! k) \<and> fst (pde_indices N_t N_x ! k) + 1 < N_t \<and>
         1 \<le> snd (pde_indices N_t N_x ! k) \<and> snd (pde_indices N_t N_x ! k) + 1 < N_x"
proof -
  from assms have "pde_indices N_t N_x ! k \<in> set (pde_indices N_t N_x)" by simp
  then have "pde_indices N_t N_x ! k \<in> {1..<N_t - 1} \<times> {1..<N_x - 1}"
    by (simp only: set_pde_indices)
  then show ?thesis by (cases "pde_indices N_t N_x ! k") auto
qed

lemma set_support:
  "set (support mat) = {(p, q). p < length mat \<and> q < length (mat ! p) \<and> mat ! p ! q \<noteq> 0}"
  by (auto simp: support_def)

lemma support_unit_mat:
  assumes "i < N_t" "j < N_x"
  shows "set (support (unit_mat N_t N_x i j)) = {(i, j)}"
  using assms by (auto simp: set_support unit_mat_def upd_nth split: if_splits)

lemma support_neumann_mat:
  assumes "2 \<le> N_t" "j < N_x"
  shows "set (support (neumann_mat N_t N_x j)) = {(0, j), (1, j)}"
  using assms by (auto simp: set_support neumann_mat_def upd_nth split: if_splits)

lemma support_union_append:
  "support_union (ms @ ns) = support_union ms \<union> support_union ns"
  by (auto simp: support_union_def)

lemma support_union_dirichlet:
  assumes "1 \<le> N_t"
  shows "support_union (map (\<lambda>j. unit_mat N_t N_x 0 j) [0..<N_x]) = {0} \<times> {0..<N_x}"
  using assms by (auto simp: support_union_def support_unit_mat)

lemma support_union_column:
  assumes "j < N_x"
  shows "support_union (map (\<lambda>i. unit_mat N_t N_x i j) [1..<N_t]) = {1..<N_t} \<times> {j}"
  using assms by (auto simp: support_union_def support_unit_mat)

lemma index_sets_disjoint:
  "({1..<N_t - 1} \<times> {1..<N_x - 1}) \<inter>
   ({0} \<times> {0..<N_x} \<union> ({1..<N_t} \<times> {0} \<union> {1..<N_t} \<times> {N_x - 1})) = ({} :: (nat \<times> nat) set)"
  by auto

lemma index_sets_union:
  assumes "2 \<le> N_t" "2 \<le> N_x"
  shows "({1..<N_t - 1} \<times> {1..<N_x - 1}) \<union>
   ({0} \<times> {0..<N_x} \<union> ({1..<N_t} \<times> {0} \<union> {1..<N_t} \<times> {N_x - 1})) =
   all_indices N_t N_x - {(i, j). i = N_t - 1 \<and> 1 \<le> j \<and> j < N_x - 1}"
  using assms by (auto simp: all_indices_def)

subsection \<open>Equation count and index sets\<close>

lemmas wave_eval = create_grid_def step_size_def linspace_def zeros_def
  wave_assemble_def wave_system_def pde_loop_def pde_body_def stencil_def
  ivp_dirichlet_loop_def ivp_neumann_loop_def space_bounds_loops_def
  set_at_def add_at_def py_div_def py_index_def append_eq_def bind_err_def
  pde_indices_def support_def support_union_def all_indices_def upt_conv_Cons eval_nat_numeral

text \<open>
  C1 (amended).  On every grid with \<open>N_t \<ge> 2\<close>, \<open>N_x \<ge> 2\<close> and nonzero step sizes the assembly
  returns exactly \<open>N_t N_x\<close> equations and right-hand sides: \<open>(N_t - 2)(N_x - 2)\<close> stencil
  equations \<open>P\<close>, \<open>N_x\<close> initial Dirichlet equations \<open>D\<close>, \<open>N_x - 2\<close> initial Neumann equations
  \<open>Nm\<close> and \<open>2 (N_t - 1)\<close> spatial-boundary equations \<open>Bd\<close>, in this order.  The stencil
  equations are centred at the indices of \<open>pde_indices\<close>.  These centres are disjoint from
  the indices addressed by the Dirichlet and spatial-boundary equations (row 0 and the two
  edge columns), but the two sets do not cover the unknowns: their union leaves out
  exactly the interior of the last time row, \<open>(N_t - 1, j)\<close> with \<open>1 \<le> j \<le> N_x - 2\<close>.  The
  count is \<open>N_t N_x\<close> all the same, because every interior index \<open>(0, j)\<close> of the initial row
  gets a second equation, the Neumann one, whose coefficients sit at \<open>(0, j)\<close> and \<open>(1, j)\<close>.
\<close>

theorem wave_equation_count:
  assumes "2 \<le> N_t" "2 \<le> N_x" "t_f \<noteq> 0" "x_1 \<noteq> x_2"
  shows "\<exists>g P pc D dc Nm nc Bd bc.
     create_grid x_1 x_2 t_f N_x N_t = Inr g \<and>
     pde_loop (grid_dt g) (grid_dx g) c f (grid_t g) (grid_x g) (nat N_t) (nat N_x) ([], [])
       = Inr (P, pc) \<and>
     ivp_dirichlet_loop (grid_x g) (nat N_t) (nat N_x) g_0 ([], []) = Inr (D, dc) \<and>
     ivp_neumann_loop (grid_x g) (nat N_t) (nat N_x) g_1 ([], []) = Inr (Nm, nc) \<and>
     space_bounds_loops (nat N_t) (nat N_x) h_1 h_2 ([], []) = Inr (Bd, bc) \<and>
     wave_assemble x_1 x_2 t_f N_x N_t c f g_0 g_1 h_1 h_2
       = Inr (P @ D @ Nm @ Bd, pc @ dc @ nc @ bc) \<and>
     int (length P) = (N_t - 2) * (N_x - 2) \<and> int (length D) = N_x \<and>
     int (length Nm) = N_x - 2 \<and> int (length Bd) = 2 * (N_t - 1) \<and>
     int (length (P @ D @ Nm @ Bd)) = N_t * N_x \<and>
     length (pc @ dc @ nc @ bc) = length (P @ D @ Nm @ Bd) \<and>
     (\<forall>k<length P.
        stencil (grid_dt g) (grid_dx g) c (nat N_t) (nat N_x)
          (fst (pde_indices (nat N_t) (nat N_x) ! k)) (snd (pde_indices (nat N_t) (nat N_x) ! k))
        = Inr (P ! k)) \<and>
     set (pde_indices (nat N_t) (nat N_x)) \<inter> support_union (D @ Bd) = {} \<and>
     set (pde_indices (nat N_t) (nat N_x)) \<union> support_union (D @ Bd) =
       all_indices (nat N_t) (nat N_x) - {(i, j). i = nat N_t - 1 \<and> 1 \<le> j \<and> j < nat N_x - 1} \<and>
     (\<forall>j. 1 \<le> j \<and> j < nat N_x - 1 \<longrightarrow> set (support (Nm ! (j - 1))) = {(0, j), (1, j)})"
proof -
  from assms have n1: "1 \<le> N_x" by simp
  from wave_assemble_Inr [OF assms(1) n1 assms(3,4), of c f g_0 g_1 h_1 h_2]
  obtain g where g: "create_grid x_1 x_2 t_f N_x N_t = Inr g"
    and dx: "grid_dx g = (x_2 - x_1) / real_of_int N_x"
    and dt: "grid_dt g = t_f / real_of_int N_t"
    and w: "wave_assemble x_1 x_2 t_f N_x N_t c f g_0 g_1 h_1 h_2 =
       Inr (wave_eqs (grid_dt g) (grid_dx g) c (nat N_t) (nat N_x),
            wave_col f (grid_t g) (grid_x g) g_0 g_1 h_1 h_2 (nat N_t) (nat N_x))"
    by blast
  define nt nx where "nt = nat N_t" and "nx = nat N_x"
  have n: "2 \<le> nt" "2 \<le> nx" "1 \<le> nt" "1 \<le> nx" "int nt = N_t" "int nx = N_x"
    using assms by (simp_all add: nt_def nx_def)
  have nz: "grid_dt g \<noteq> 0" "grid_dx g \<noteq> 0" using assms dx dt by simp_all
  let ?I = "pde_indices nt nx"
  let ?P = "map (\<lambda>(i, j). stencil_mat (grid_dt g) (grid_dx g) c nt nx i j) ?I"
  let ?pc = "map (\<lambda>(i, j). f (grid_t g ! i) (grid_x g ! j)) ?I"
  let ?D = "map (\<lambda>j. unit_mat nt nx 0 j) [0..<nx]"
  let ?dc = "map (\<lambda>j. g_0 (grid_x g ! j)) [0..<nx]"
  let ?N = "map (\<lambda>j. neumann_mat nt nx j) [1..<nx - 1]"
  let ?nc = "map (\<lambda>j. g_1 (grid_x g ! j)) [1..<nx - 1]"
  let ?B = "map (\<lambda>i. unit_mat nt nx i 0) [1..<nt] @ map (\<lambda>i. unit_mat nt nx i (nx - 1)) [1..<nt]"
  let ?bc = "map (\<lambda>i. h_1) [1..<nt] @ map (\<lambda>i. h_2) [1..<nt]"
  have p: "pde_loop (grid_dt g) (grid_dx g) c f (grid_t g) (grid_x g) nt nx ([], []) = Inr (?P, ?pc)"
    using pde_loop_Inr [OF nz, of c f "grid_t g" "grid_x g" nt nx "([], [])"] by simp
  have d: "ivp_dirichlet_loop (grid_x g) nt nx g_0 ([], []) = Inr (?D, ?dc)"
    using ivp_dirichlet_loop_Inr [OF n(3), of "grid_x g" nx g_0 "([], [])"] by simp
  have m: "ivp_neumann_loop (grid_x g) nt nx g_1 ([], []) = Inr (?N, ?nc)"
    using ivp_neumann_loop_Inr [OF n(1), of "grid_x g" nx g_1 "([], [])"] by simp
  have b: "space_bounds_loops nt nx h_1 h_2 ([], []) = Inr (?B, ?bc)"
    using space_bounds_loops_Inr [OF n(4), of nt h_1 h_2 "([], [])"] by simp
  have w': "wave_assemble x_1 x_2 t_f N_x N_t c f g_0 g_1 h_1 h_2 =
      Inr (?P @ ?D @ ?N @ ?B, ?pc @ ?dc @ ?nc @ ?bc)"
    using w by (simp add: wave_eqs_def wave_col_def nt_def nx_def)
  have lP: "int (length ?P) = (N_t - 2) * (N_x - 2)"
  proof -
    have "int (length ?P) = int (nt - 2) * int (nx - 2)"
      by (simp add: length_pde_indices)
    also have "\<dots> = (int nt - 2) * (int nx - 2)" using n(1,2) by (simp add: of_nat_diff)
    finally show ?thesis by (simp only: n)
  qed
  have lD: "int (length ?D) = N_x" using n by simp
  have lN: "int (length ?N) = N_x - 2" using n by (simp add: of_nat_diff)
  have lB: "int (length ?B) = 2 * (N_t - 1)" using n by (simp add: of_nat_diff)
  have lall: "int (length (?P @ ?D @ ?N @ ?B)) = N_t * N_x"
  proof -
    have "int (length (?P @ ?D @ ?N @ ?B)) =
        int (length ?P) + int (length ?D) + int (length ?N) + int (length ?B)"
      by simp
    also have "\<dots> = (N_t - 2) * (N_x - 2) + N_x + (N_x - 2) + 2 * (N_t - 1)"
      by (simp only: lP lD lN lB)
    also have "\<dots> = N_t * N_x" by (simp add: algebra_simps)
    finally show ?thesis .
  qed
  have lcol: "length (?pc @ ?dc @ ?nc @ ?bc) = length (?P @ ?D @ ?N @ ?B)" by simp
  have st: "stencil (grid_dt g) (grid_dx g) c nt nx (fst (?I ! k)) (snd (?I ! k)) = Inr (?P ! k)"
    if "k < length ?P" for k
  proof -
    from that have k: "k < length ?I" by simp
    from pde_indices_nth [OF k] stencil_Inr [OF _ _ _ _ nz]
    have "stencil (grid_dt g) (grid_dx g) c nt nx (fst (?I ! k)) (snd (?I ! k)) =
        Inr (stencil_mat (grid_dt g) (grid_dx g) c nt nx (fst (?I ! k)) (snd (?I ! k)))"
      by blast
    then show ?thesis using k by (simp add: case_prod_beta)
  qed
  have su: "support_union (?D @ ?B) =
      {0} \<times> {0..<nx} \<union> ({1..<nt} \<times> {0} \<union> {1..<nt} \<times> {nx - 1})"
  proof -
    have c0: "support_union (map (\<lambda>i. unit_mat nt nx i 0) [1..<nt]) = {1..<nt} \<times> {0}"
      using n by (intro support_union_column) simp
    have c1: "support_union (map (\<lambda>i. unit_mat nt nx i (nx - 1)) [1..<nt]) =
        {1..<nt} \<times> {nx - 1}"
      using n by (intro support_union_column) simp
    show ?thesis
      by (simp only: support_union_append support_union_dirichlet [OF n(3)] c0 c1)
  qed
  have dj: "set ?I \<inter> support_union (?D @ ?B) = {}"
    unfolding su set_pde_indices by (rule index_sets_disjoint)
  have un: "set ?I \<union> support_union (?D @ ?B) =
      all_indices nt nx - {(i, j). i = nt - 1 \<and> 1 \<le> j \<and> j < nx - 1}"
    unfolding su set_pde_indices by (rule index_sets_union [OF n(1,2)])
  have ne: "set (support (?N ! (j - 1))) = {(0, j), (1, j)}" if "1 \<le> j \<and> j < nx - 1" for j
  proof -
    from that have "j - 1 < length [1..<nx - 1]" "[1..<nx - 1] ! (j - 1) = j" "j < nx"
      by auto
    then show ?thesis using support_neumann_mat [OF n(1), of j nx] by simp
  qed
  show ?thesis
    apply (rule exI [of _ g], rule exI [of _ ?P], rule exI [of _ ?pc], rule exI [of _ ?D])
    apply (rule exI [of _ ?dc], rule exI [of _ ?N], rule exI [of _ ?nc], rule exI [of _ ?B])
    apply (rule exI [of _ ?bc])
    unfolding nt_def [symmetric] nx_def [symmetric]
    using g p d m b w' lP lD lN lB lall lcol st dj un ne by (intro conjI allI impI)
qed

theorem wave_equation_count_witness:
  "wave_assemble 0 3 3 3 3 (1/2) (\<lambda>t x. 0 * x * t) (\<lambda>x. x) (\<lambda>x. 0 * x) 0 0 =
     Inr ([[[0, 1, 0], [- 1/4, - 3/2, - 1/4], [0, 1, 0]]] @
          [[[1, 0, 0], [0, 0, 0], [0, 0, 0]],
           [[0, 1, 0], [0, 0, 0], [0, 0, 0]],
           [[0, 0, 1], [0, 0, 0], [0, 0, 0]]] @
          [[[0, - 1, 0], [0, 1, 0], [0, 0, 0]]] @
          [[[0, 0, 0], [1, 0, 0], [0, 0, 0]],
           [[0, 0, 0], [0, 0, 0], [1, 0, 0]],
           [[0, 0, 0], [0, 0, 1], [0, 0, 0]],
           [[0, 0, 0], [0, 0, 0], [0, 0, 1]]],
          [0] @ [0, 3/2, 3] @ [0] @ [0, 0, 0, 0]) \<and>
   int (length ([[[0, 1, 0], [- 1/4, - 3/2, - 1/4], [0, 1, 0]]] @
          [[[1, 0, 0], [0, 0, 0], [0, 0, 0]],
           [[0, 1, 0], [0, 0, 0], [0, 0, 0]],
           [[0, 0, 1], [0, 0, 0], [0, 0, 0]]] @
          [[[0, - 1, 0], [0, 1, 0], [0, 0, 0]]] @
          [[[0, 0, 0], [1, 0, 0], [0, 0, 0]],
           [[0, 0, 0], [0, 0, 0], [1, 0, 0]],
           [[0, 0, 0], [0, 0, 1], [0, 0, 0]],
           [[0, 0, 0], [0, 0, 0], [0, 0, 1::real]]])) = 3 * 3 \<and>
   set (pde_indices (nat 3) (nat 3)) \<inter> support_union
         ([[[1, 0, 0], [0, 0, 0], [0, 0, 0]],
           [[0, 1, 0], [0, 0, 0], [0, 0, 0]],
           [[0, 0, 1], [0, 0, 0], [0, 0, 0]]] @
          [[[0, 0, 0], [1, 0, 0], [0, 0, 0]],
           [[0, 0, 0], [0, 0, 0], [1, 0, 0]],
           [[0, 0, 0], [0, 0, 1], [0, 0, 0]],
           [[0, 0, 0], [0, 0, 0], [0, 0, 1]]]) = {} \<and>
   set (pde_indices (nat 3) (nat 3)) \<union> support_union
         ([[[1, 0, 0], [0, 0, 0], [0, 0, 0]],
           [[0, 1, 0], [0, 0, 0], [0, 0, 0]],
           [[0, 0, 1], [0, 0, 0], [0, 0, 0]]] @
          [[[0, 0, 0], [1, 0, 0], [0, 0, 0]],
           [[0, 0, 0], [0, 0, 0], [1, 0, 0]],
           [[0, 0, 0], [0, 0, 1], [0, 0, 0]],
           [[0, 0, 0], [0, 0, 0], [0, 0, 1]]]) =
     all_indices (nat 3) (nat 3) - {(i, j). i = nat 3 - 1 \<and> 1 \<le> j \<and> j < nat 3 - 1}"
proof -
  let ?f = "\<lambda>t x::real. 0 * x * t" and ?g0 = "\<lambda>x::real. x" and ?g1 = "\<lambda>x::real. 0 * x"
  have h: "(2::int) \<le> 3" "(2::int) \<le> 3" "(3::real) \<noteq> 0" "(0::real) \<noteq> 3" by simp_all
  from wave_equation_count [OF h, of "1/2" ?f ?g0 ?g1 0 0]
  obtain g P pc D dc Nm nc Bd bc where
    g: "create_grid 0 3 3 3 3 = Inr g"
    and p: "pde_loop (grid_dt g) (grid_dx g) (1/2) ?f (grid_t g) (grid_x g) (nat 3) (nat 3) ([], [])
       = Inr (P, pc)"
    and d: "ivp_dirichlet_loop (grid_x g) (nat 3) (nat 3) ?g0 ([], []) = Inr (D, dc)"
    and m: "ivp_neumann_loop (grid_x g) (nat 3) (nat 3) ?g1 ([], []) = Inr (Nm, nc)"
    and b: "space_bounds_loops (nat 3) (nat 3) 0 0 ([], []) = Inr (Bd, bc)"
    and w: "wave_assemble 0 3 3 3 3 (1/2) ?f ?g0 ?g1 0 0 = Inr (P @ D @ Nm @ Bd, pc @ dc @ nc @ bc)"
    and l: "int (length (P @ D @ Nm @ Bd)) = 3 * 3"
    and dj: "set (pde_indices (nat 3) (nat 3)) \<inter> support_union (D @ Bd) = {}"
    and un: "set (pde_indices (nat 3) (nat 3)) \<union> support_union (D @ Bd) =
       all_indices (nat 3) (nat 3) - {(i, j). i = nat 3 - 1 \<and> 1 \<le> j \<and> j < nat 3 - 1}"
    by (elim exE conjE)
  have g': "g = \<lparr>grid_dx = 1, grid_dt = 1, grid_x = [0, 3/2, 3], grid_t = [0, 3/2, 3]\<rparr>"
    using g by (simp add: wave_eval)
  have ep: "pde_loop (grid_dt g) (grid_dx g) (1/2) ?f (grid_t g) (grid_x g) (nat 3) (nat 3) ([], [])
      = Inr ([[[0, 1, 0], [- 1/4, - 3/2, - 1/4], [0, 1, 0]]], [0])"
    unfolding g' by (simp add: wave_eval)
  have ed: "ivp_dirichlet_loop (grid_x g) (nat 3) (nat 3) ?g0 ([], []) =
      Inr ([[[1, 0, 0], [0, 0, 0], [0, 0, 0]],
            [[0, 1, 0], [0, 0, 0], [0, 0, 0]],
            [[0, 0, 1], [0, 0, 0], [0, 0, 0]]], [0, 3/2, 3])"
    unfolding g' by (simp add: wave_eval)
  have em: "ivp_neumann_loop (grid_x g) (nat 3) (nat 3) ?g1 ([], []) =
      Inr ([[[0, - 1, 0], [0, 1, 0], [0, 0, 0]]], [0])"
    unfolding g' by (simp add: wave_eval)
  have eb: "space_bounds_loops (nat 3) (nat 3) 0 0 ([], []) =
      Inr ([[[0, 0, 0], [1, 0, 0], [0, 0, 0]],
            [[0, 0, 0], [0, 0, 0], [1, 0, 0]],
            [[0, 0, 0], [0, 0, 1], [0, 0, 0]],
            [[0, 0, 0], [0, 0, 0], [0, 0, 1]]], [0, 0, 0, 0])"
    by (simp add: wave_eval)
  from p ep have "Inr (P, pc) = (Inr ([[[0, 1, 0], [- 1/4, - 3/2, - 1/4], [0, 1, 0]]], [0])
      :: error + system)"
    by (rule trans [OF sym])
  then have P: "P = [[[0, 1, 0], [- 1/4, - 3/2, - 1/4], [0, 1, 0]]]" "pc = [0]" by simp_all
  from d ed have "Inr (D, dc) = (Inr ([[[1, 0, 0], [0, 0, 0], [0, 0, 0]],
            [[0, 1, 0], [0, 0, 0], [0, 0, 0]],
            [[0, 0, 1], [0, 0, 0], [0, 0, 0]]], [0, 3/2, 3]) :: error + system)"
    by (rule trans [OF sym])
  then have D: "D = [[[1, 0, 0], [0, 0, 0], [0, 0, 0]],
           [[0, 1, 0], [0, 0, 0], [0, 0, 0]],
           [[0, 0, 1], [0, 0, 0], [0, 0, 0]]]" "dc = [0, 3/2, 3]" by simp_all
  from m em have "Inr (Nm, nc) = (Inr ([[[0, - 1, 0], [0, 1, 0], [0, 0, 0]]], [0])
      :: error + system)"
    by (rule trans [OF sym])
  then have N: "Nm = [[[0, - 1, 0], [0, 1, 0], [0, 0, 0]]]" "nc = [0]" by simp_all
  from b eb have "Inr (Bd, bc) = (Inr ([[[0, 0, 0], [1, 0, 0], [0, 0, 0]],
            [[0, 0, 0], [0, 0, 0], [1, 0, 0]],
            [[0, 0, 0], [0, 0, 1], [0, 0, 0]],
            [[0, 0, 0], [0, 0, 0], [0, 0, 1]]], [0, 0, 0, 0]) :: error + system)"
    by (rule trans [OF sym])
  then have B: "Bd = [[[0, 0, 0], [1, 0, 0], [0, 0, 0]],
           [[0, 0, 0], [0, 0, 0], [1, 0, 0]],
           [[0, 0, 0], [0, 0, 1], [0, 0, 0]],
           [[0, 0, 0], [0, 0, 0], [0, 0, 1]]]" "bc = [0, 0, 0, 0]" by simp_all
  show ?thesis
    using w l dj un unfolding P D N B by (intro conjI)
qed


text \<open>
  C1 (as stated) fails on the grid \<open>N_t = N_x = 3\<close>.  The unknown \<open>(2, 1)\<close> is neither a
  stencil centre nor an index with a coefficient in any of the eight equations of the
  boundary-condition loops, so the index sets leave a gap.  If the stencil equations are
  instead taken with all their coefficients, the sets overlap: the stencil centred at
  \<open>(1, 1)\<close> and the Dirichlet equation of \<open>(0, 1)\<close> both have a coefficient at \<open>(0, 1)\<close>.
\<close>

theorem wave_last_row_unaddressed:
  "wave_assemble 0 3 3 3 3 (1/2) (\<lambda>t x. 0 * x * t) (\<lambda>x. x) (\<lambda>x. 0 * x) 0 0 =
     Inr ([[[0, 1, 0], [- 1/4, - 3/2, - 1/4], [0, 1, 0]],
           [[1, 0, 0], [0, 0, 0], [0, 0, 0]],
           [[0, 1, 0], [0, 0, 0], [0, 0, 0]],
           [[0, 0, 1], [0, 0, 0], [0, 0, 0]],
           [[0, - 1, 0], [0, 1, 0], [0, 0, 0]],
           [[0, 0, 0], [1, 0, 0], [0, 0, 0]],
           [[0, 0, 0], [0, 0, 0], [1, 0, 0]],
           [[0, 0, 0], [0, 0, 1], [0, 0, 0]],
           [[0, 0, 0], [0, 0, 0], [0, 0, 1]]],
          [0, 0, 3/2, 3, 0, 0, 0, 0, 0]) \<and>
   pde_indices 3 3 = [(1, 1)] \<and>
   (2, 1) \<in> all_indices 3 3 \<and>
   (2, 1) \<notin> set (pde_indices 3 3) \<and>
   (2, 1) \<notin> support_union
          [[[1, 0, 0], [0, 0, 0], [0, 0, 0]],
           [[0, 1, 0], [0, 0, 0], [0, 0, 0]],
           [[0, 0, 1], [0, 0, 0], [0, 0, 0]],
           [[0, - 1, 0], [0, 1, 0], [0, 0, 0]],
           [[0, 0, 0], [1, 0, 0], [0, 0, 0]],
           [[0, 0, 0], [0, 0, 0], [1, 0, 0]],
           [[0, 0, 0], [0, 0, 1], [0, 0, 0]],
           [[0, 0, 0], [0, 0, 0], [0, 0, 1]]] \<and>
   (0, 1) \<in> set (support [[0, 1, 0], [- 1/4, - 3/2, - 1/4], [0, 1, 0]]) \<and>
   (0, 1) \<in> set (support [[0, 1, 0], [0, 0, 0], [0, 0, 0]])"
  by code_simp



subsection \<open>The 2-D stencil\<close>

lemma length_zeros3 [simp]: "length (zeros3 n m l) = n"
  by (simp add: zeros3_def)

lemma length_zeros3_row [simp]: "p < n \<Longrightarrow> length (zeros3 n m l ! p) = m"
  by (simp add: zeros3_def)

lemma length_zeros3_row2 [simp]: "p < n \<Longrightarrow> q < m \<Longrightarrow> length (zeros3 n m l ! p ! q) = l"
  by (simp add: zeros3_def)

lemma zeros3_nth [simp]: "p < n \<Longrightarrow> q < m \<Longrightarrow> r < l \<Longrightarrow> zeros3 n m l ! p ! q ! r = 0"
  by (simp add: zeros3_def)

lemma length_inc3 [simp]: "length (inc3 mat i j k v) = length mat"
  by (simp add: inc3_def)

lemma length_inc3_row [simp]: "length (inc3 mat i j k v ! p) = length (mat ! p)"
  by (cases "i < length mat") (simp_all add: inc3_def nth_list_update list_update_beyond)

lemma length_inc3_row2 [simp]: "length (inc3 mat i j k v ! p ! q) = length (mat ! p ! q)"
proof (cases "i < length mat")
  case True
  show ?thesis
  proof (cases "j < length (mat ! i)")
    case True
    with \<open>i < length mat\<close> show ?thesis by (auto simp: inc3_def nth_list_update)
  next
    case False
    with \<open>i < length mat\<close> show ?thesis
      by (simp add: inc3_def nth_list_update list_update_beyond)
  qed
next
  case False
  then show ?thesis by (simp add: inc3_def list_update_beyond)
qed

lemma inc3_nth:
  "i < length mat \<Longrightarrow> j < length (mat ! i) \<Longrightarrow> k < length (mat ! i ! j) \<Longrightarrow>
   inc3 mat i j k v ! p ! q ! r =
     mat ! p ! q ! r + (if p = i \<and> q = j \<and> r = k then v else 0)"
  by (auto simp: inc3_def nth_list_update)

lemma add_at3_nat:
  "i < length mat \<Longrightarrow> j < length (mat ! i) \<Longrightarrow> k < length (mat ! i ! j) \<Longrightarrow>
   add_at3 mat (int i) (int j) (int k) (Inr v) = Inr (inc3 mat i j k v)"
  by (simp add: add_at3_def py_index_nat inc3_def)

lemma set_at3_nat:
  "i < length mat \<Longrightarrow> j < length (mat ! i) \<Longrightarrow> k < length (mat ! i ! j) \<Longrightarrow>
   set_at3 mat (int i) (int j) (int k) v =
     Inr (mat[i := (mat ! i)[j := (mat ! i ! j)[k := v]]])"
  by (simp add: set_at3_def py_index_nat)

lemma stencil_2d_Inr:
  assumes "1 \<le> i" "i + 1 < N_t" "1 \<le> j" "j + 1 < N_x" "1 \<le> k" "k + 1 < N_y"
    "dt \<noteq> 0" "dx \<noteq> 0" "dy \<noteq> 0"
  shows "stencil_2d dt dx dy c N_t N_x N_y i j k = Inr (stencil_mat3 dt dx dy c N_t N_x N_y i j k)"
proof -
  have i1: "int i - 1 = int (i - 1)" "int i + 1 = int (i + 1)"
    and j1: "int j - 1 = int (j - 1)" "int j + 1 = int (j + 1)"
    and k1: "int k - 1 = int (k - 1)" "int k + 1 = int (k + 1)"
    using assms by simp_all
  have r: "i < N_t" "i - 1 < N_t" "j < N_x" "j - 1 < N_x" "k < N_y" "k - 1 < N_y"
    using assms by simp_all
  have step: "add_at3 mat (int p) (int q) (int s) (Inr v) = Inr (inc3 mat p q s v)"
    if "length mat = N_t" "\<forall>a<N_t. length (mat ! a) = N_x"
       "\<forall>a<N_t. \<forall>b<N_x. length (mat ! a ! b) = N_y" "p < N_t" "q < N_x" "s < N_y"
    for mat p q s v
    using that by (intro add_at3_nat) simp_all
  have sh0: "length (zeros3 N_t N_x N_y) = N_t \<and>
      (\<forall>a<N_t. length (zeros3 N_t N_x N_y ! a) = N_x) \<and>
      (\<forall>a<N_t. \<forall>b<N_x. length (zeros3 N_t N_x N_y ! a ! b) = N_y)"
    by simp
  have shi: "length (inc3 mat p q s v) = N_t \<and>
      (\<forall>a<N_t. length (inc3 mat p q s v ! a) = N_x) \<and>
      (\<forall>a<N_t. \<forall>b<N_x. length (inc3 mat p q s v ! a ! b) = N_y)"
    if "length mat = N_t \<and> (\<forall>a<N_t. length (mat ! a) = N_x) \<and>
      (\<forall>a<N_t. \<forall>b<N_x. length (mat ! a ! b) = N_y)" for mat p q s v
    using that by simp
  note s1 = shi [OF sh0, of i j k]
  note s2 = shi [OF s1, of _ "i - 1" j k]
  note s3 = shi [OF s2, of _ _ "i + 1" j k]
  note s4 = shi [OF s3, of _ _ _ i j k]
  note s5 = shi [OF s4, of _ _ _ _ i "j + 1" k]
  note s6 = shi [OF s5, of _ _ _ _ _ i "j - 1" k]
  note s7 = shi [OF s6, of _ _ _ _ _ _ i j k]
  note s8 = shi [OF s7, of _ _ _ _ _ _ _ i j "k + 1"]
  have st: "add_at3 mat (int p) (int q) (int s) (Inr v) = Inr (inc3 mat p q s v)"
    if "length mat = N_t \<and> (\<forall>a<N_t. length (mat ! a) = N_x) \<and>
      (\<forall>a<N_t. \<forall>b<N_x. length (mat ! a ! b) = N_y)" "p < N_t" "q < N_x" "s < N_y"
    for mat p q s v
    using that by (intro step) simp_all
  show ?thesis
    unfolding stencil_2d_def stencil_mat3_def i1 j1 k1
    by (simp only: st [OF sh0 r(1,3,5)] st [OF s1 r(2,3,5)] st [OF s2 assms(2) r(3,5)]
        st [OF s3 r(1,3,5)] st [OF s4 r(1) assms(4) r(5)] st [OF s5 r(1,4,5)]
        st [OF s6 r(1,3,5)] st [OF s7 r(1,3) assms(6)] st [OF s8 r(1,3,6)]
        rhs_quot [OF assms(7)] rhs_quot_twice [OF assms(8)] rhs_quot_minus [OF assms(8)]
        rhs_quot_twice [OF assms(9)] rhs_quot_minus [OF assms(9)] bind_err_Inr)
qed

lemma stencil_mat3_nth_sum:
  assumes "1 \<le> i" "i + 1 < N_t" "1 \<le> j" "j + 1 < N_x" "1 \<le> k" "k + 1 < N_y"
    "p < N_t" "q < N_x" "r < N_y"
  shows "stencil_mat3 dt dx dy c N_t N_x N_y i j k ! p ! q ! r =
     (if p = i \<and> q = j \<and> r = k then - 2 / dt / dt else 0) +
     (if p = i - 1 \<and> q = j \<and> r = k then 1 / dt / dt else 0) +
     (if p = i + 1 \<and> q = j \<and> r = k then 1 / dt / dt else 0) +
     (if p = i \<and> q = j \<and> r = k then (c * c / dx / dx) * 2 else 0) +
     (if p = i \<and> q = j + 1 \<and> r = k then - (c * c / dx / dx) else 0) +
     (if p = i \<and> q = j - 1 \<and> r = k then - (c * c / dx / dx) else 0) +
     (if p = i \<and> q = j \<and> r = k then (c * c / dy / dy) * 2 else 0) +
     (if p = i \<and> q = j \<and> r = k + 1 then - (c * c / dy / dy) else 0) +
     (if p = i \<and> q = j \<and> r = k - 1 then - (c * c / dy / dy) else 0)"
proof -
  have b: "i < N_t" "i - 1 < N_t" "j < N_x" "j - 1 < N_x" "k < N_y" "k - 1 < N_y"
    using assms by simp_all
  have nth: "inc3 mat a b' e v ! p ! q ! r =
      mat ! p ! q ! r + (if p = a \<and> q = b' \<and> r = e then v else 0)"
    if "length mat = N_t \<and> (\<forall>a<N_t. length (mat ! a) = N_x) \<and>
      (\<forall>a<N_t. \<forall>b<N_x. length (mat ! a ! b) = N_y)" "a < N_t" "b' < N_x" "e < N_y"
    for mat a b' e v
    using that by (intro inc3_nth) simp_all
  have sh0: "length (zeros3 N_t N_x N_y) = N_t \<and>
      (\<forall>a<N_t. length (zeros3 N_t N_x N_y ! a) = N_x) \<and>
      (\<forall>a<N_t. \<forall>b<N_x. length (zeros3 N_t N_x N_y ! a ! b) = N_y)"
    by simp
  have shi: "length (inc3 mat a b' e v) = N_t \<and>
      (\<forall>a'<N_t. length (inc3 mat a b' e v ! a') = N_x) \<and>
      (\<forall>a'<N_t. \<forall>b<N_x. length (inc3 mat a b' e v ! a' ! b) = N_y)"
    if "length mat = N_t \<and> (\<forall>a<N_t. length (mat ! a) = N_x) \<and>
      (\<forall>a<N_t. \<forall>b<N_x. length (mat ! a ! b) = N_y)" for mat a b' e v
    using that by simp
  note s1 = shi [OF sh0, of i j k]
  note s2 = shi [OF s1, of _ "i - 1" j k]
  note s3 = shi [OF s2, of _ _ "i + 1" j k]
  note s4 = shi [OF s3, of _ _ _ i j k]
  note s5 = shi [OF s4, of _ _ _ _ i "j + 1" k]
  note s6 = shi [OF s5, of _ _ _ _ _ i "j - 1" k]
  note s7 = shi [OF s6, of _ _ _ _ _ _ i j k]
  note s8 = shi [OF s7, of _ _ _ _ _ _ _ i j "k + 1"]
  have z: "zeros3 N_t N_x N_y ! p ! q ! r = 0" using assms by simp
  show ?thesis
    unfolding stencil_mat3_def
    by (simp only: nth [OF sh0 b(1,3,5)] nth [OF s1 b(2,3,5)] nth [OF s2 assms(2) b(3,5)]
        nth [OF s3 b(1,3,5)] nth [OF s4 b(1) assms(4) b(5)] nth [OF s5 b(1,4,5)]
        nth [OF s6 b(1,3,5)] nth [OF s7 b(1,3) assms(6)] nth [OF s8 b(1,3,6)] z add_0)
qed

lemma stencil_mat3_nth:
  assumes "1 \<le> i" "i + 1 < N_t" "1 \<le> j" "j + 1 < N_x" "1 \<le> k" "k + 1 < N_y"
    "p < N_t" "q < N_x" "r < N_y"
  shows "stencil_mat3 dt dx dy c N_t N_x N_y i j k ! p ! q ! r =
     (if p = i \<and> q = j \<and> r = k
        then - 2 / dt / dt + (c * c / dx / dx) * 2 + (c * c / dy / dy) * 2
      else if (p = i - 1 \<or> p = i + 1) \<and> q = j \<and> r = k then 1 / dt / dt
      else if p = i \<and> (q = j + 1 \<or> q = j - 1) \<and> r = k then - (c * c / dx / dx)
      else if p = i \<and> q = j \<and> (r = k + 1 \<or> r = k - 1) then - (c * c / dy / dy)
      else 0)"
proof -
  note e = stencil_mat3_nth_sum [OF assms, of dt dx dy c]
  have ne: "i - 1 \<noteq> i" "i \<noteq> i - 1" "i + 1 \<noteq> i - 1" "i - 1 \<noteq> i + 1"
    "j - 1 \<noteq> j" "j \<noteq> j - 1" "j + 1 \<noteq> j - 1" "j - 1 \<noteq> j + 1"
    "k - 1 \<noteq> k" "k \<noteq> k - 1" "k + 1 \<noteq> k - 1" "k - 1 \<noteq> k + 1"
    "i + 1 \<noteq> i" "i \<noteq> i + 1" "j + 1 \<noteq> j" "j \<noteq> j + 1" "k + 1 \<noteq> k" "k \<noteq> k + 1"
    using assms(1,3,5) by linarith+
  consider (c) "p = i \<and> q = j \<and> r = k"
    | (t1) "p = i - 1 \<and> q = j \<and> r = k" | (t2) "p = i + 1 \<and> q = j \<and> r = k"
    | (x1) "p = i \<and> q = j + 1 \<and> r = k" | (x2) "p = i \<and> q = j - 1 \<and> r = k"
    | (y1) "p = i \<and> q = j \<and> r = k + 1" | (y2) "p = i \<and> q = j \<and> r = k - 1"
    | (o) "\<not> (p = i \<and> q = j \<and> r = k)" "\<not> (p = i - 1 \<and> q = j \<and> r = k)"
          "\<not> (p = i + 1 \<and> q = j \<and> r = k)" "\<not> (p = i \<and> q = j + 1 \<and> r = k)"
          "\<not> (p = i \<and> q = j - 1 \<and> r = k)" "\<not> (p = i \<and> q = j \<and> r = k + 1)"
          "\<not> (p = i \<and> q = j \<and> r = k - 1)"
    by blast
  then show ?thesis
  proof cases
    case c
    then have v: "p = i" "q = j" "r = k" by simp_all
    show ?thesis
      by (simp only: e, simp only: v ne simp_thms if_True if_False add_0 add_0_right)
  next
    case t1
    then have v: "p = i - 1" "q = j" "r = k" by simp_all
    show ?thesis
      by (simp only: e, simp only: v ne simp_thms if_True if_False add_0 add_0_right)
  next
    case t2
    then have v: "p = i + 1" "q = j" "r = k" by simp_all
    show ?thesis
      by (simp only: e, simp only: v ne simp_thms if_True if_False add_0 add_0_right)
  next
    case x1
    then have v: "p = i" "q = j + 1" "r = k" by simp_all
    show ?thesis
      by (simp only: e, simp only: v ne simp_thms if_True if_False add_0 add_0_right)
  next
    case x2
    then have v: "p = i" "q = j - 1" "r = k" by simp_all
    show ?thesis
      by (simp only: e, simp only: v ne simp_thms if_True if_False add_0 add_0_right)
  next
    case y1
    then have v: "p = i" "q = j" "r = k + 1" by simp_all
    show ?thesis
      by (simp only: e, simp only: v ne simp_thms if_True if_False add_0 add_0_right)
  next
    case y2
    then have v: "p = i" "q = j" "r = k - 1" by simp_all
    show ?thesis
      by (simp only: e, simp only: v ne simp_thms if_True if_False add_0 add_0_right)
  next
    case o
    have n2: "\<not> ((p = i - 1 \<or> p = i + 1) \<and> q = j \<and> r = k)" using o by blast
    have n3: "\<not> (p = i \<and> (q = j + 1 \<or> q = j - 1) \<and> r = k)" using o by blast
    have n4: "\<not> (p = i \<and> q = j \<and> (r = k + 1 \<or> r = k - 1))" using o by blast
    show ?thesis unfolding e by (simp only: o n2 n3 n4 if_False add_0)
  qed
qed


lemma for_range_append3:
  assumes "\<And>k s. k \<in> set ks \<Longrightarrow> body k s = Inr (append_eq3 s (m k) (r k))"
  shows "for_range ks body s = Inr (fst s @ map m ks, snd s @ map r ks)"
proof -
  have "for_range ks body s =
      Inr (fst s @ concat (map (\<lambda>k. [m k]) ks), snd s @ concat (map (\<lambda>k. [r k]) ks))"
    by (rule for_range_blocks) (simp add: assms append_eq3_def)
  moreover have "concat (map (\<lambda>k. [g k]) ks) = map g ks" for g :: "nat \<Rightarrow> 'b"
    by (induction ks) simp_all
  ultimately show ?thesis by simp
qed

lemma pde_loop_2d_Inr:
  assumes "dt \<noteq> 0" "dx \<noteq> 0" "dy \<noteq> 0"
  shows "pde_loop_2d dt dx dy c f t x y N_t N_x N_y s =
     Inr (fst s @ map (\<lambda>(i, j, k). stencil_mat3 dt dx dy c N_t N_x N_y i j k)
                    (pde_indices_2d N_t N_x N_y),
          snd s @ map (\<lambda>(i, j, k). f (t ! i) (x ! j) (y ! k)) (pde_indices_2d N_t N_x N_y))"
proof -
  let ?M = "\<lambda>i j k. stencil_mat3 dt dx dy c N_t N_x N_y i j k"
  let ?R = "\<lambda>i j k. f (t ! i) (x ! j) (y ! k)"
  have inner: "for_range [1..<N_y - 1] (\<lambda>k. pde_body_2d dt dx dy c f t x y N_t N_x N_y i j k) s' =
      Inr (fst s' @ map (?M i j) [1..<N_y - 1], snd s' @ map (?R i j) [1..<N_y - 1])"
    if "i \<in> set [1..<N_t - 1]" "j \<in> set [1..<N_x - 1]" for i j s'
  proof (rule for_range_append3)
    fix k s'' assume "k \<in> set [1..<N_y - 1]"
    with that have "1 \<le> i" "i + 1 < N_t" "1 \<le> j" "j + 1 < N_x" "1 \<le> k" "k + 1 < N_y" by auto
    from stencil_2d_Inr [OF this assms]
    show "pde_body_2d dt dx dy c f t x y N_t N_x N_y i j k s'' =
        Inr (append_eq3 s'' (?M i j k) (?R i j k))"
      by (simp add: pde_body_2d_def)
  qed
  have middle: "for_range [1..<N_x - 1] (\<lambda>j.
        for_range [1..<N_y - 1] (\<lambda>k. pde_body_2d dt dx dy c f t x y N_t N_x N_y i j k)) s' =
      Inr (fst s' @ concat (map (\<lambda>j. map (?M i j) [1..<N_y - 1]) [1..<N_x - 1]),
           snd s' @ concat (map (\<lambda>j. map (?R i j) [1..<N_y - 1]) [1..<N_x - 1]))"
    if "i \<in> set [1..<N_t - 1]" for i s'
    by (rule for_range_blocks) (rule inner [OF that])
  have "pde_loop_2d dt dx dy c f t x y N_t N_x N_y s =
      Inr (fst s @ concat (map (\<lambda>i. concat (map (\<lambda>j. map (?M i j) [1..<N_y - 1]) [1..<N_x - 1]))
                            [1..<N_t - 1]),
           snd s @ concat (map (\<lambda>i. concat (map (\<lambda>j. map (?R i j) [1..<N_y - 1]) [1..<N_x - 1]))
                            [1..<N_t - 1]))"
    unfolding pde_loop_2d_def by (rule for_range_blocks) (rule middle)
  then show ?thesis
    by (simp add: pde_indices_2d_def map_concat comp_def)
qed

lemma set_pde_indices_2d:
  "set (pde_indices_2d N_t N_x N_y) = {1..<N_t - 1} \<times> {1..<N_x - 1} \<times> {1..<N_y - 1}"
  by (auto simp: pde_indices_2d_def)

lemma pde_indices_2d_nth:
  assumes "n < length (pde_indices_2d N_t N_x N_y)" "pde_indices_2d N_t N_x N_y ! n = (i, j, k)"
  shows "1 \<le> i \<and> i + 1 < N_t \<and> 1 \<le> j \<and> j + 1 < N_x \<and> 1 \<le> k \<and> k + 1 < N_y"
proof -
  from assms have "(i, j, k) \<in> set (pde_indices_2d N_t N_x N_y)" by (metis nth_mem)
  then have "(i, j, k) \<in> {1..<N_t - 1} \<times> {1..<N_x - 1} \<times> {1..<N_y - 1}"
    by (simp only: set_pde_indices_2d)
  then show ?thesis by auto
qed


subsection \<open>Where the stencil equations have coefficients\<close>

lemmas wave2d_eval = zeros3_def pde_loop_2d_def pde_body_2d_def stencil_2d_def
  ivp_neumann_loop_2d_def set_at3_def add_at3_def py_div_def py_index_def append_eq3_def bind_err_def
  pde_indices_2d_def upt_conv_Cons eval_nat_numeral

text \<open>
  C5 (amended).  With nonzero step sizes the stencil loops of the 1-D and of the 2-D wave
  example return one equation per visited index, and none of them is centred at the first
  or last time index or at the first or last index of a spatial axis: the centre \<open>(i, j)\<close>
  has \<open>1 \<le> i \<le> N_t - 2\<close> and \<open>1 \<le> j \<le> N_x - 2\<close> (and \<open>1 \<le> k \<le> N_y - 2\<close> in 2-D).  The
  coefficients of an equation are those the stencil statements add up: the sum of the
  centre terms at the centre, \<open>1/dt/dt\<close> at the two time neighbours, \<open>-(c*c/dx/dx)\<close> and
  \<open>-(c*c/dy/dy)\<close> at the space neighbours, and 0 everywhere else.  The neighbours of a centre
  next to the boundary lie on the boundary, so the equations centred at \<open>i = 1\<close> and at
  \<open>i = N_t - 2\<close> carry the coefficient \<open>1/dt/dt\<close> at the first and at the last time index, and
  those centred next to a spatial boundary carry \<open>-(c*c/dx/dx)\<close> or \<open>-(c*c/dy/dy)\<close> on it.
\<close>

theorem stencil_coefficients:
  assumes "dt \<noteq> 0" "dx \<noteq> 0" "dy \<noteq> 0"
  shows "(\<exists>P pc. pde_loop dt dx c f t x N_t N_x ([], []) = Inr (P, pc) \<and>
       length P = length (pde_indices N_t N_x) \<and>
       (\<forall>n<length P. \<forall>i j. pde_indices N_t N_x ! n = (i, j) \<longrightarrow>
          1 \<le> i \<and> i + 2 \<le> N_t \<and> 1 \<le> j \<and> j + 2 \<le> N_x \<and>
          stencil dt dx c N_t N_x i j = Inr (P ! n) \<and>
          (\<forall>p<N_t. \<forall>q<N_x. P ! n ! p ! q =
             (if p = i \<and> q = j then - 2 / dt / dt + (c * c / dx / dx) * 2
              else if (p = i - 1 \<or> p = i + 1) \<and> q = j then 1 / dt / dt
              else if p = i \<and> (q = j + 1 \<or> q = j - 1) then - (c * c / dx / dx)
              else 0)))) \<and>
     (\<exists>P pc. pde_loop_2d dt dx dy c f' t x y N_t N_x N_y ([], []) = Inr (P, pc) \<and>
       length P = length (pde_indices_2d N_t N_x N_y) \<and>
       (\<forall>n<length P. \<forall>i j k. pde_indices_2d N_t N_x N_y ! n = (i, j, k) \<longrightarrow>
          1 \<le> i \<and> i + 2 \<le> N_t \<and> 1 \<le> j \<and> j + 2 \<le> N_x \<and> 1 \<le> k \<and> k + 2 \<le> N_y \<and>
          stencil_2d dt dx dy c N_t N_x N_y i j k = Inr (P ! n) \<and>
          (\<forall>p<N_t. \<forall>q<N_x. \<forall>r<N_y. P ! n ! p ! q ! r =
             (if p = i \<and> q = j \<and> r = k
                then - 2 / dt / dt + (c * c / dx / dx) * 2 + (c * c / dy / dy) * 2
              else if (p = i - 1 \<or> p = i + 1) \<and> q = j \<and> r = k then 1 / dt / dt
              else if p = i \<and> (q = j + 1 \<or> q = j - 1) \<and> r = k then - (c * c / dx / dx)
              else if p = i \<and> q = j \<and> (r = k + 1 \<or> r = k - 1) then - (c * c / dy / dy)
              else 0))))"
proof (intro conjI)
  let ?I = "pde_indices N_t N_x"
  let ?P = "map (\<lambda>(i, j). stencil_mat dt dx c N_t N_x i j) ?I"
  let ?pc = "map (\<lambda>(i, j). f (t ! i) (x ! j)) ?I"
  have p: "pde_loop dt dx c f t x N_t N_x ([], []) = Inr (?P, ?pc)"
    using pde_loop_Inr [OF assms(1,2), of c f t x N_t N_x "([], [])"] by simp
  have each: "1 \<le> i \<and> i + 2 \<le> N_t \<and> 1 \<le> j \<and> j + 2 \<le> N_x \<and>
          stencil dt dx c N_t N_x i j = Inr (?P ! n) \<and>
          (\<forall>p<N_t. \<forall>q<N_x. ?P ! n ! p ! q =
             (if p = i \<and> q = j then - 2 / dt / dt + (c * c / dx / dx) * 2
              else if (p = i - 1 \<or> p = i + 1) \<and> q = j then 1 / dt / dt
              else if p = i \<and> (q = j + 1 \<or> q = j - 1) then - (c * c / dx / dx)
              else 0))"
    if n: "n < length ?P" and ij: "?I ! n = (i, j)" for n i j
  proof -
    from n have n': "n < length ?I" by simp
    from pde_indices_nth [OF n'] ij
    have r: "1 \<le> i" "i + 1 < N_t" "1 \<le> j" "j + 1 < N_x" by simp_all
    have Pn: "?P ! n = stencil_mat dt dx c N_t N_x i j" using n' ij by simp
    show ?thesis
      unfolding Pn
      using r stencil_Inr [OF r assms(1,2), of c] stencil_mat_nth [OF r, of _ _ dt dx c]
      by (intro conjI allI impI) simp_all
  qed
  show "\<exists>P pc. pde_loop dt dx c f t x N_t N_x ([], []) = Inr (P, pc) \<and>
       length P = length (pde_indices N_t N_x) \<and>
       (\<forall>n<length P. \<forall>i j. pde_indices N_t N_x ! n = (i, j) \<longrightarrow>
          1 \<le> i \<and> i + 2 \<le> N_t \<and> 1 \<le> j \<and> j + 2 \<le> N_x \<and>
          stencil dt dx c N_t N_x i j = Inr (P ! n) \<and>
          (\<forall>p<N_t. \<forall>q<N_x. P ! n ! p ! q =
             (if p = i \<and> q = j then - 2 / dt / dt + (c * c / dx / dx) * 2
              else if (p = i - 1 \<or> p = i + 1) \<and> q = j then 1 / dt / dt
              else if p = i \<and> (q = j + 1 \<or> q = j - 1) then - (c * c / dx / dx)
              else 0)))"
    apply (rule exI [of _ ?P], rule exI [of _ ?pc])
    using p each by (intro conjI allI impI) simp_all
next
  let ?I = "pde_indices_2d N_t N_x N_y"
  let ?P = "map (\<lambda>(i, j, k). stencil_mat3 dt dx dy c N_t N_x N_y i j k) ?I"
  let ?pc = "map (\<lambda>(i, j, k). f' (t ! i) (x ! j) (y ! k)) ?I"
  have p: "pde_loop_2d dt dx dy c f' t x y N_t N_x N_y ([], []) = Inr (?P, ?pc)"
    using pde_loop_2d_Inr [OF assms, of c f' t x y N_t N_x N_y "([], [])"] by simp
  have each: "1 \<le> i \<and> i + 2 \<le> N_t \<and> 1 \<le> j \<and> j + 2 \<le> N_x \<and> 1 \<le> k \<and> k + 2 \<le> N_y \<and>
          stencil_2d dt dx dy c N_t N_x N_y i j k = Inr (?P ! n) \<and>
          (\<forall>p<N_t. \<forall>q<N_x. \<forall>r<N_y. ?P ! n ! p ! q ! r =
             (if p = i \<and> q = j \<and> r = k
                then - 2 / dt / dt + (c * c / dx / dx) * 2 + (c * c / dy / dy) * 2
              else if (p = i - 1 \<or> p = i + 1) \<and> q = j \<and> r = k then 1 / dt / dt
              else if p = i \<and> (q = j + 1 \<or> q = j - 1) \<and> r = k then - (c * c / dx / dx)
              else if p = i \<and> q = j \<and> (r = k + 1 \<or> r = k - 1) then - (c * c / dy / dy)
              else 0))"
    if n: "n < length ?P" and ijk: "?I ! n = (i, j, k)" for n i j k
  proof -
    from n have n': "n < length ?I" by simp
    from pde_indices_2d_nth [OF n' ijk]
    have r: "1 \<le> i" "i + 1 < N_t" "1 \<le> j" "j + 1 < N_x" "1 \<le> k" "k + 1 < N_y" by simp_all
    have Pn: "?P ! n = stencil_mat3 dt dx dy c N_t N_x N_y i j k" using n' ijk by simp
    show ?thesis
      unfolding Pn
      using r stencil_2d_Inr [OF r assms, of c] stencil_mat3_nth [OF r, of _ _ _ dt dx dy c]
      by (intro conjI allI impI) simp_all
  qed
  show "\<exists>P pc. pde_loop_2d dt dx dy c f' t x y N_t N_x N_y ([], []) = Inr (P, pc) \<and>
       length P = length (pde_indices_2d N_t N_x N_y) \<and>
       (\<forall>n<length P. \<forall>i j k. pde_indices_2d N_t N_x N_y ! n = (i, j, k) \<longrightarrow>
          1 \<le> i \<and> i + 2 \<le> N_t \<and> 1 \<le> j \<and> j + 2 \<le> N_x \<and> 1 \<le> k \<and> k + 2 \<le> N_y \<and>
          stencil_2d dt dx dy c N_t N_x N_y i j k = Inr (P ! n) \<and>
          (\<forall>p<N_t. \<forall>q<N_x. \<forall>r<N_y. P ! n ! p ! q ! r =
             (if p = i \<and> q = j \<and> r = k
                then - 2 / dt / dt + (c * c / dx / dx) * 2 + (c * c / dy / dy) * 2
              else if (p = i - 1 \<or> p = i + 1) \<and> q = j \<and> r = k then 1 / dt / dt
              else if p = i \<and> (q = j + 1 \<or> q = j - 1) \<and> r = k then - (c * c / dx / dx)
              else if p = i \<and> q = j \<and> (r = k + 1 \<or> r = k - 1) then - (c * c / dy / dy)
              else 0)))"
    apply (rule exI [of _ ?P], rule exI [of _ ?pc])
    using p each by (intro conjI allI impI) simp_all
qed

theorem stencil_coefficients_witness:
  "pde_loop 1 1 (1/2) (\<lambda>t x. 0 * x * t) [0, 3/2, 3] [0, 3/2, 3] 3 3 ([], []) =
     Inr ([[[0, 1, 0], [- 1/4, - 3/2, - 1/4], [0, 1, 0]]], [0]) \<and>
   pde_indices 3 3 ! 0 = (1, 1) \<and>
   stencil 1 1 (1/2) 3 3 1 1 = Inr ([[[0, 1, 0], [- 1/4, - 3/2, - 1/4], [0, 1, 0]]] ! 0) \<and>
   [[[0, 1, 0], [- 1/4, - 3/2, - 1/4], [0, 1, 0::real]]] ! 0 ! (1 - 1) ! 1 = 1 / 1 / 1 \<and>
   [[[0, 1, 0], [- 1/4, - 3/2, - 1/4], [0, 1, 0::real]]] ! 0 ! 1 ! (1 + 1) =
     - ((1/2) * (1/2) / 1 / 1) \<and>
   pde_loop_2d 1 1 1 (1/2) (\<lambda>t x y. 0 * x * y * t) [0, 3/2, 3] [0, 3/2, 3] [0, 3/2, 3] 3 3 3
       ([], []) =
     Inr ([[[[0, 0, 0], [0, 1, 0], [0, 0, 0]],
            [[0, - 1/4, 0], [- 1/4, - 1, - 1/4], [0, - 1/4, 0]],
            [[0, 0, 0], [0, 1, 0], [0, 0, 0]]]], [0]) \<and>
   pde_indices_2d 3 3 3 ! 0 = (1, 1, 1) \<and>
   stencil_2d 1 1 1 (1/2) 3 3 3 1 1 1 =
     Inr ([[[[0, 0, 0], [0, 1, 0], [0, 0, 0]],
            [[0, - 1/4, 0], [- 1/4, - 1, - 1/4], [0, - 1/4, 0]],
            [[0, 0, 0], [0, 1, 0], [0, 0, 0]]]] ! 0) \<and>
   [[[[0, 0, 0], [0, 1, 0], [0, 0, 0]],
            [[0, - 1/4, 0], [- 1/4, - 1, - 1/4], [0, - 1/4, 0]],
            [[0, 0, 0], [0, 1, 0], [0, 0, 0::real]]]] ! 0 ! (1 - 1) ! 1 ! 1 = 1 / 1 / 1"
proof -
  let ?f = "\<lambda>t x::real. 0 * x * t" and ?f' = "\<lambda>t x y::real. 0 * x * y * t"
  let ?x = "[0, 3/2, 3::real]"
  let ?M = "[[0, 1, 0], [- 1/4, - 3/2, - 1/4], [0, 1, 0::real]]"
  let ?M3 = "[[[0, 0, 0], [0, 1, 0], [0, 0, 0]],
            [[0, - 1/4, 0], [- 1/4, - 1, - 1/4], [0, - 1/4, 0]],
            [[0, 0, 0], [0, 1, 0], [0, 0, 0::real]]]"
  have h: "(1::real) \<noteq> 0" "(1::real) \<noteq> 0" "(1::real) \<noteq> 0" by simp_all
  from stencil_coefficients [OF h, of "1/2" ?f ?x ?x 3 3 ?f' ?x 3]
  obtain P pc P3 pc3 where
    p: "pde_loop 1 1 (1/2) ?f ?x ?x 3 3 ([], []) = Inr (P, pc)"
    and a: "\<forall>n<length P. \<forall>i j. pde_indices 3 3 ! n = (i, j) \<longrightarrow>
          1 \<le> i \<and> i + 2 \<le> 3 \<and> 1 \<le> j \<and> j + 2 \<le> 3 \<and>
          stencil 1 1 (1/2) 3 3 i j = Inr (P ! n) \<and>
          (\<forall>p<3. \<forall>q<3. P ! n ! p ! q =
             (if p = i \<and> q = j then - 2 / 1 / 1 + ((1/2) * (1/2) / 1 / 1) * 2
              else if (p = i - 1 \<or> p = i + 1) \<and> q = j then 1 / 1 / 1
              else if p = i \<and> (q = j + 1 \<or> q = j - 1) then - ((1/2) * (1/2) / 1 / 1)
              else 0))"
    and p3: "pde_loop_2d 1 1 1 (1/2) ?f' ?x ?x ?x 3 3 3 ([], []) = Inr (P3, pc3)"
    and a3: "\<forall>n<length P3. \<forall>i j k. pde_indices_2d 3 3 3 ! n = (i, j, k) \<longrightarrow>
          1 \<le> i \<and> i + 2 \<le> 3 \<and> 1 \<le> j \<and> j + 2 \<le> 3 \<and> 1 \<le> k \<and> k + 2 \<le> 3 \<and>
          stencil_2d 1 1 1 (1/2) 3 3 3 i j k = Inr (P3 ! n) \<and>
          (\<forall>p<3. \<forall>q<3. \<forall>r<3. P3 ! n ! p ! q ! r =
             (if p = i \<and> q = j \<and> r = k
                then - 2 / 1 / 1 + ((1/2) * (1/2) / 1 / 1) * 2 + ((1/2) * (1/2) / 1 / 1) * 2
              else if (p = i - 1 \<or> p = i + 1) \<and> q = j \<and> r = k then 1 / 1 / 1
              else if p = i \<and> (q = j + 1 \<or> q = j - 1) \<and> r = k then - ((1/2) * (1/2) / 1 / 1)
              else if p = i \<and> q = j \<and> (r = k + 1 \<or> r = k - 1) then - ((1/2) * (1/2) / 1 / 1)
              else 0))"
    by (elim exE conjE)
  have ep: "pde_loop 1 1 (1/2) ?f ?x ?x 3 3 ([], []) = Inr ([?M], [0])"
    by (simp add: wave_eval)
  have ep3: "pde_loop_2d 1 1 1 (1/2) ?f' ?x ?x ?x 3 3 3 ([], []) = Inr ([?M3], [0])"
    by (simp add: wave2d_eval)
  from p ep have "Inr (P, pc) = (Inr ([?M], [0]) :: error + system)" by (rule trans [OF sym])
  then have P: "P = [?M]" by simp
  from p3 ep3 have "Inr (P3, pc3) = (Inr ([?M3], [0]) :: error + system3)"
    by (rule trans [OF sym])
  then have P3: "P3 = [?M3]" by simp
  have i1: "pde_indices 3 3 ! 0 = (1, 1)" by (simp add: wave_eval)
  have i3: "pde_indices_2d 3 3 3 ! 0 = (1, 1, 1)" by (simp add: wave2d_eval)
  have l: "(0::nat) < length P" "(0::nat) < length P3" unfolding P P3 by simp_all
  from a l(1) i1 have b: "stencil 1 1 (1/2) 3 3 1 1 = Inr (P ! 0)"
    and c: "\<forall>p<3. \<forall>q<3. P ! 0 ! p ! q =
             (if p = 1 \<and> q = 1 then - 2 / 1 / 1 + ((1/2) * (1/2) / 1 / 1) * 2
              else if (p = 1 - 1 \<or> p = 1 + 1) \<and> q = 1 then 1 / 1 / 1
              else if p = 1 \<and> (q = 1 + 1 \<or> q = 1 - 1) then - ((1/2) * (1/2) / 1 / 1)
              else 0)"
    by blast+
  from c have c1: "P ! 0 ! (1 - 1) ! 1 = 1 / 1 / 1"
    and c2: "P ! 0 ! 1 ! (1 + 1) = - ((1/2) * (1/2) / 1 / 1)"
    by simp_all
  from a3 l(2) i3 have b3: "stencil_2d 1 1 1 (1/2) 3 3 3 1 1 1 = Inr (P3 ! 0)"
    and c3: "\<forall>p<3. \<forall>q<3. \<forall>r<3. P3 ! 0 ! p ! q ! r =
             (if p = 1 \<and> q = 1 \<and> r = 1
                then - 2 / 1 / 1 + ((1/2) * (1/2) / 1 / 1) * 2 + ((1/2) * (1/2) / 1 / 1) * 2
              else if (p = 1 - 1 \<or> p = 1 + 1) \<and> q = 1 \<and> r = 1 then 1 / 1 / 1
              else if p = 1 \<and> (q = 1 + 1 \<or> q = 1 - 1) \<and> r = 1 then - ((1/2) * (1/2) / 1 / 1)
              else if p = 1 \<and> q = 1 \<and> (r = 1 + 1 \<or> r = 1 - 1) then - ((1/2) * (1/2) / 1 / 1)
              else 0)"
    by blast+
  from c3 have c4: "P3 ! 0 ! (1 - 1) ! 1 ! 1 = 1 / 1 / 1" by simp
  show ?thesis
    using ep i1 b c1 c2 ep3 i3 b3 c4 unfolding P P3 by (intro conjI) simp_all
qed

text \<open>
  C5 (as stated) fails on the grid \<open>N_t = N_x = 3\<close> with \<open>dt = dx = 1\<close> and \<open>c = 1/2\<close>: the one
  stencil equation, centred at \<open>(1, 1)\<close>, has nonzero coefficients at the first and at the
  last time index and at the first and the last spatial index.
\<close>

theorem stencil_touches_boundary:
  "create_grid 0 3 3 3 3 =
     Inr \<lparr>grid_dx = 1, grid_dt = 1, grid_x = [0, 3/2, 3], grid_t = [0, 3/2, 3]\<rparr> \<and>
   pde_loop 1 1 (1/2) (\<lambda>t x. 0 * x * t) [0, 3/2, 3] [0, 3/2, 3] 3 3 ([], []) =
     Inr ([[[0, 1, 0], [- 1/4, - 3/2, - 1/4], [0, 1, 0]]], [0]) \<and>
   [[0, 1, 0], [- 1/4, - 3/2, - 1/4], [0, 1, 0::real]] ! 0 ! 1 \<noteq> 0 \<and>
   [[0, 1, 0], [- 1/4, - 3/2, - 1/4], [0, 1, 0::real]] ! 2 ! 1 \<noteq> 0 \<and>
   [[0, 1, 0], [- 1/4, - 3/2, - 1/4], [0, 1, 0::real]] ! 1 ! 0 \<noteq> 0 \<and>
   [[0, 1, 0], [- 1/4, - 3/2, - 1/4], [0, 1, 0::real]] ! 1 ! 2 \<noteq> 0"
  by (simp add: wave_eval)


subsection \<open>The right-hand side of the initial Neumann equations\<close>

text \<open>
  C4.  The notebook states the initial velocity condition as
  \<open>(u[1][j] - u[0][j]) / dt = g_1(x[j])\<close>, and the Neumann loop writes the coefficients \<open>+1\<close>
  at \<open>(1, j)\<close> and \<open>-1\<close> at \<open>(0, j)\<close>, so the right-hand side that goes with them is
  \<open>g_1(x[j]) dt\<close>.  The loop appends \<open>g_1(x[j])\<close> instead.  On the grid \<open>N_t = 2\<close>, \<open>N_x = 3\<close>,
  \<open>t_f = 1\<close> (so \<open>dt = 1/2\<close>) with \<open>g_1 = 1\<close> the Neumann equation, the fourth of the system,
  has the right-hand side 1 and not \<open>1/2\<close>; the 2-D loop does the same.
\<close>

theorem neumann_rhs_unscaled:
  "create_grid 0 3 1 3 2 =
     Inr \<lparr>grid_dx = 1, grid_dt = 1/2, grid_x = [0, 3/2, 3], grid_t = [0, 1]\<rparr> \<and>
   wave_assemble 0 3 1 3 2 (1/2) (\<lambda>t x. 0 * x * t) (\<lambda>x. x) (\<lambda>x. 1) 0 0 =
     Inr ([[[1, 0, 0], [0, 0, 0]],
           [[0, 1, 0], [0, 0, 0]],
           [[0, 0, 1], [0, 0, 0]],
           [[0, - 1, 0], [0, 1, 0]],
           [[0, 0, 0], [1, 0, 0]],
           [[0, 0, 0], [0, 0, 1]]],
          [0, 3/2, 3, 1, 0, 0]) \<and>
   ivp_neumann_loop [0, 3/2, 3] 2 3 (\<lambda>x. 1) ([], []) =
     Inr ([[[0, - 1, 0], [0, 1, 0]]], [1]) \<and>
   (1::real) \<noteq> 1 * (1/2) \<and>
   ivp_neumann_loop_2d [0, 3/2, 3] [0, 3/2, 3] 2 3 3 (\<lambda>x y. 1) ([], []) =
     Inr ([[[[0, 0, 0], [0, - 1, 0], [0, 0, 0]], [[0, 0, 0], [0, 1, 0], [0, 0, 0]]]], [1])"
  by (simp add: wave_eval wave2d_eval)

end
